theory Spec2Isabelle
  imports Complex_Main "HOL-Library.Sublist"
begin

section \<open>Text\<close>

text \<open>
  The scripts work on Python \<^verbatim>\<open>str\<close> values. A text is modelled as a \<^typ>\<open>string\<close>
  whose characters are read as the code points U+0000 to U+00FF. The character classes
  below are those of Python 3 on that range: \<^verbatim>\<open>str.isspace\<close> (which is also
  the class \<^verbatim>\<open>\s\<close> of \<^verbatim>\<open>re\<close>), the decimal digits of \<^verbatim>\<open>\d\<close>, the
  alphanumerics and underscore of \<^verbatim>\<open>\w\<close>, the line boundaries of
  \<^verbatim>\<open>str.splitlines\<close> and the mapping of \<^verbatim>\<open>str.lower\<close>.
\<close>

definition is_space :: "char \<Rightarrow> bool" where
  "is_space c \<longleftrightarrow> c \<in> set
       [CHR 0x09, CHR 0x0A, CHR 0x0B, CHR 0x0C, CHR 0x0D, CHR 0x1C, CHR 0x1D, CHR 0x1E, CHR 0x1F, CHR 0x20, CHR 0x85, CHR 0xA0]"

definition is_digit :: "char \<Rightarrow> bool" where
  "is_digit c \<longleftrightarrow> c \<in> set ''0123456789''"

definition ascii_upper :: string where
  "ascii_upper = ''ABCDEFGHIJKLMNOPQRSTUVWXYZ''"

definition ascii_lower :: string where
  "ascii_lower = ''abcdefghijklmnopqrstuvwxyz''"

text \<open>The upper-case letters above U+007F and their lower-case forms, 32 code points later.\<close>

definition latin_upper :: string where
  "latin_upper =
       [CHR 0xC0, CHR 0xC1, CHR 0xC2, CHR 0xC3, CHR 0xC4, CHR 0xC5, CHR 0xC6, CHR 0xC7, CHR 0xC8, CHR 0xC9, CHR 0xCA, CHR 0xCB,
        CHR 0xCC, CHR 0xCD, CHR 0xCE, CHR 0xCF, CHR 0xD0, CHR 0xD1, CHR 0xD2, CHR 0xD3, CHR 0xD4, CHR 0xD5, CHR 0xD6, CHR 0xD8,
        CHR 0xD9, CHR 0xDA, CHR 0xDB, CHR 0xDC, CHR 0xDD, CHR 0xDE]"

definition latin_lower :: string where
  "latin_lower =
       [CHR 0xE0, CHR 0xE1, CHR 0xE2, CHR 0xE3, CHR 0xE4, CHR 0xE5, CHR 0xE6, CHR 0xE7, CHR 0xE8, CHR 0xE9, CHR 0xEA, CHR 0xEB,
        CHR 0xEC, CHR 0xED, CHR 0xEE, CHR 0xEF, CHR 0xF0, CHR 0xF1, CHR 0xF2, CHR 0xF3, CHR 0xF4, CHR 0xF5, CHR 0xF6, CHR 0xF8,
        CHR 0xF9, CHR 0xFA, CHR 0xFB, CHR 0xFC, CHR 0xFD, CHR 0xFE]"

text \<open>The other characters above U+007F that Python counts as alphanumeric.\<close>

definition latin_other_alnum :: string where
  "latin_other_alnum =
       [CHR 0xAA, CHR 0xB2, CHR 0xB3, CHR 0xB5, CHR 0xB9, CHR 0xBA, CHR 0xBC, CHR 0xBD, CHR 0xBE, CHR 0xDF, CHR 0xFF]"

definition is_word :: "char \<Rightarrow> bool" where
  "is_word c \<longleftrightarrow>
     is_digit c \<or> c = CHR ''_'' \<or> c \<in> set ascii_upper \<or> c \<in> set ascii_lower
     \<or> c \<in> set latin_upper \<or> c \<in> set latin_lower \<or> c \<in> set latin_other_alnum"

definition is_linebreak :: "char \<Rightarrow> bool" where
  "is_linebreak c \<longleftrightarrow> c \<in> set
       [CHR 0x0A, CHR 0x0B, CHR 0x0C, CHR 0x0D, CHR 0x1C, CHR 0x1D, CHR 0x1E, CHR 0x85]"

definition lower_char :: "char \<Rightarrow> char" where
  "lower_char c =
     (case map_of (zip (ascii_upper @ latin_upper) (ascii_lower @ latin_lower)) c of
        Some l \<Rightarrow> l
      | None \<Rightarrow> c)"

definition lower :: "string \<Rightarrow> string" where
  "lower s = map lower_char s"

text \<open>\<^verbatim>\<open>text.startswith(p)\<close> and \<^verbatim>\<open>p in text\<close>, with the text first.\<close>

fun startswith :: "string \<Rightarrow> string \<Rightarrow> bool" where
  "startswith text [] = True"
| "startswith [] (p # ps) = False"
| "startswith (c # cs) (p # ps) = (c = p \<and> startswith cs ps)"

fun contains :: "string \<Rightarrow> string \<Rightarrow> bool" where
  "contains [] p = (p = [])"
| "contains (c # cs) p = (startswith (c # cs) p \<or> contains cs p)"

text \<open>\<^verbatim>\<open>str.strip()\<close> removes the whitespace at both ends.\<close>

definition lstrip :: "string \<Rightarrow> string" where
  "lstrip s = dropWhile is_space s"

definition rstrip :: "string \<Rightarrow> string" where
  "rstrip s = rev (dropWhile is_space (rev s))"

definition strip :: "string \<Rightarrow> string" where
  "strip s = rstrip (lstrip s)"

section \<open>Raw log records\<close>

text \<open>
  A raw record is whatever \<^verbatim>\<open>json.loads\<close> returns for a line of the log. Numbers are
  modelled by their value; an object is the list of its items, read with \<^const>\<open>map_of\<close>
  (the keys of a loaded object are distinct).
\<close>

datatype json =
    JNull
  | JBool bool
  | JNum real
  | JStr string
  | JList "json list"
  | JObj "(string \<times> json) list"

datatype py_error =
  TypeError | AttributeError | KeyError | IndexError | ValueError | OverflowError | OSError

text \<open>Truth value of a JSON value in a Python condition, and \<^verbatim>\<open>a or b\<close>.\<close>

fun truthy :: "json \<Rightarrow> bool" where
  "truthy JNull = False"
| "truthy (JBool b) = b"
| "truthy (JNum x) = (x \<noteq> 0)"
| "truthy (JStr s) = (s \<noteq> [])"
| "truthy (JList xs) = (xs \<noteq> [])"
| "truthy (JObj kvs) = (kvs \<noteq> [])"

definition py_or :: "json \<Rightarrow> json \<Rightarrow> json" where
  "py_or a b = (if truthy a then a else b)"

text \<open>
  \<^verbatim>\<open>key in x\<close> for a string key: membership in a dict's keys, substring of a string,
  element of a list; any other value is not iterable. \<^verbatim>\<open>x[key]\<close> for a string key is
  defined on a dict only; it is used here only after \<^verbatim>\<open>key in x\<close> held.
\<close>

fun py_in :: "string \<Rightarrow> json \<Rightarrow> py_error + bool" where
  "py_in k (JObj kvs) = Inr (map_of kvs k \<noteq> None)"
| "py_in k (JStr s) = Inr (contains s k)"
| "py_in k (JList xs) = Inr (JStr k \<in> set xs)"
| "py_in k JNull = Inl TypeError"
| "py_in k (JBool b) = Inl TypeError"
| "py_in k (JNum x) = Inl TypeError"

fun py_getitem :: "json \<Rightarrow> string \<Rightarrow> py_error + json" where
  "py_getitem (JObj kvs) k = (case map_of kvs k of Some v \<Rightarrow> Inr v | None \<Rightarrow> Inl KeyError)"
| "py_getitem (JStr s) k = Inl TypeError"
| "py_getitem (JList xs) k = Inl TypeError"
| "py_getitem JNull k = Inl TypeError"
| "py_getitem (JBool b) k = Inl TypeError"
| "py_getitem (JNum x) k = Inl TypeError"

text \<open>\<^verbatim>\<open>d.get(key)\<close> on a dict, with \<^verbatim>\<open>None\<close> for a missing key.\<close>

definition dict_get :: "(string \<times> json) list \<Rightarrow> string \<Rightarrow> json" where
  "dict_get kvs k = (case map_of kvs k of Some v \<Rightarrow> v | None \<Rightarrow> JNull)"

section \<open>The records of a normalized trace\<close>

text \<open>
  \<^verbatim>\<open>EventRecord\<close> (the class \<^verbatim>\<open>Event\<close> of the simulation has the same fields). The
  type parameter is the type of the two actor fields: \<^typ>\<open>json\<close> at ingestion, which
  stores the log's metadata value as found, and \<^typ>\<open>string\<close> in a well-formed trace.
\<close>

record 'a EventRecord =
  sequence :: nat
  timestamp :: string
  sender :: 'a
  recipient :: 'a
  role :: string
  payload_type :: string
  content :: string

text \<open>
  \<^verbatim>\<open>StateSnapshot\<close>; its fields \<^verbatim>\<open>timestamp\<close> and \<^verbatim>\<open>note\<close> are named
  \<open>snap_timestamp\<close> and \<open>snap_note\<close> here. The dict \<^verbatim>\<open>todo_statuses\<close> is a map.
\<close>

record StateSnapshot =
  snap_timestamp :: string
  phase :: string
  active_todo :: "string option"
  todo_statuses :: "string \<rightharpoonup> string"
  snap_note :: string

record ValidationResult =
  name :: string
  status :: string
  missing_sections :: "string list"

section \<open>The regular expressions (ingest\_codex\_jsonl.py)\<close>

text \<open>
  Both patterns are used with \<^verbatim>\<open>re.IGNORECASE\<close> and \<^verbatim>\<open>search\<close>, which returns
  the leftmost match. A literal of the pattern matches at the start of a text when the
  lower-cased characters agree, one by one.
\<close>

fun ci_startswith :: "string \<Rightarrow> string \<Rightarrow> bool" where
  "ci_startswith text [] = True"
| "ci_startswith [] (p # ps) = False"
| "ci_startswith (c # cs) (p # ps) =
     (if lower_char c = lower_char p then ci_startswith cs ps else False)"

text \<open>
  \<^verbatim>\<open>TODO ID:\s*(todo-\d+)\<close> matched at the start of the text; the result is group 1
  as it stands in the text. The greedy \<^verbatim>\<open>\s*\<close> takes all the whitespace: giving some
  back leaves a whitespace character where \<^verbatim>\<open>t\<close> is required. The greedy
  \<^verbatim>\<open>\d+\<close> takes all the digits, and nothing follows it in the pattern.
\<close>

definition todo_id_match :: "string \<Rightarrow> string option" where
  "todo_id_match text =
     (if ci_startswith text ''TODO ID:''
      then (let rest = dropWhile is_space (drop 8 text)
            in if ci_startswith rest ''todo-''
               then (let digits = takeWhile is_digit (drop 5 rest)
                     in if digits = [] then None else Some (take 5 rest @ digits))
               else None)
      else None)"

fun TODO_ID_PATTERN_search :: "string \<Rightarrow> string option" where
  "TODO_ID_PATTERN_search [] = None"
| "TODO_ID_PATTERN_search (c # cs) =
     (case todo_id_match (c # cs) of
        Some g \<Rightarrow> Some g
      | None \<Rightarrow> TODO_ID_PATTERN_search cs)"

text \<open>
  \<^verbatim>\<open>STATUS:\s*(\w+)\<close> in the same way; no whitespace character is a word character,
  so here too the greedy match is the only one.
\<close>

definition status_match :: "string \<Rightarrow> string option" where
  "status_match text =
     (if ci_startswith text ''STATUS:''
      then (let word = takeWhile is_word (dropWhile is_space (drop 7 text))
            in if word = [] then None else Some word)
      else None)"

fun status_search :: "string \<Rightarrow> string option" where
  "status_search [] = None"
| "status_search (c # cs) =
     (case status_match (c # cs) of
        Some g \<Rightarrow> Some g
      | None \<Rightarrow> status_search cs)"

text \<open>\<^verbatim>\<open>status_match.group(1).lower() if status_match else ""\<close>\<close>

definition status_token :: "string \<Rightarrow> string" where
  "status_token text = (case status_search text of Some g \<Rightarrow> lower g | None \<Rightarrow> [])"

section \<open>The text flattener (ingest\_codex\_jsonl.py)\<close>

definition ensure_list :: "json \<Rightarrow> json list" where
  "ensure_list v = (case v of JList xs \<Rightarrow> xs | _ \<Rightarrow> [v])"

text \<open>
  \<^verbatim>\<open>key in event and "content" in event[key]\<close>, and then
  \<^verbatim>\<open>event[key]["content"]\<close>: the value found, \<open>None\<close> when the condition is false.
\<close>

definition nested_content :: "json \<Rightarrow> string \<Rightarrow> py_error + json option" where
  "nested_content event k =
     (case py_in k event of
        Inl e \<Rightarrow> Inl e
      | Inr False \<Rightarrow> Inr None
      | Inr True \<Rightarrow>
          (case py_getitem event k of
             Inl e \<Rightarrow> Inl e
           | Inr inner \<Rightarrow>
               (case py_in ''content'' inner of
                  Inl e \<Rightarrow> Inl e
                | Inr False \<Rightarrow> Inr None
                | Inr True \<Rightarrow>
                    (case py_getitem inner ''content'' of
                       Inl e \<Rightarrow> Inl e
                     | Inr v \<Rightarrow> Inr (Some v)))))"

text \<open>The \<^verbatim>\<open>if/elif/elif/else\<close> that selects the candidates; \<open>None\<close> is the final \<^verbatim>\<open>else\<close>.\<close>

definition content_candidates :: "json \<Rightarrow> py_error + json list option" where
  "content_candidates event =
     (case py_in ''content'' event of
        Inl e \<Rightarrow> Inl e
      | Inr True \<Rightarrow>
          (case py_getitem event ''content'' of
             Inl e \<Rightarrow> Inl e
           | Inr v \<Rightarrow> Inr (Some (ensure_list v)))
      | Inr False \<Rightarrow>
          (case nested_content event ''message'' of
             Inl e \<Rightarrow> Inl e
           | Inr (Some v) \<Rightarrow> Inr (Some (ensure_list v))
           | Inr None \<Rightarrow>
               (case nested_content event ''payload'' of
                  Inl e \<Rightarrow> Inl e
                | Inr (Some v) \<Rightarrow> Inr (Some (ensure_list v))
                | Inr None \<Rightarrow> Inr None)))"

text \<open>What one candidate appends to \<^verbatim>\<open>extracted\<close>: nothing, or one value.\<close>

fun extract_candidate :: "json \<Rightarrow> json list" where
  "extract_candidate (JStr s) = [JStr s]"
| "extract_candidate (JObj kvs) =
     (if dict_get kvs ''type'' = JStr ''text'' \<and> map_of kvs ''text'' \<noteq> None
      then [dict_get kvs ''text'']
      else (case map_of kvs ''value'' of
              Some (JStr s) \<Rightarrow> [JStr s]
            | _ \<Rightarrow> []))"
| "extract_candidate JNull = []"
| "extract_candidate (JBool b) = []"
| "extract_candidate (JNum x) = []"
| "extract_candidate (JList xs) = []"

text \<open>\<^verbatim>\<open>sep.join(items)\<close>: a \<^verbatim>\<open>TypeError\<close> when an item is not a string.\<close>

fun join :: "string \<Rightarrow> string list \<Rightarrow> string" where
  "join sep [] = []"
| "join sep [s] = s"
| "join sep (s # t # ss) = s @ sep @ join sep (t # ss)"

fun strings_of :: "json list \<Rightarrow> py_error + string list" where
  "strings_of [] = Inr []"
| "strings_of (JStr s # vs) = (case strings_of vs of Inl e \<Rightarrow> Inl e | Inr ss \<Rightarrow> Inr (s # ss))"
| "strings_of (v # vs) = Inl TypeError"

definition flatten_text :: "json \<Rightarrow> py_error + string" where
  "flatten_text event =
     (case content_candidates event of
        Inl e \<Rightarrow> Inl e
      | Inr None \<Rightarrow> Inr []
      | Inr (Some candidates) \<Rightarrow>
          (case strings_of (concat (map extract_candidate candidates)) of
             Inl e \<Rightarrow> Inl e
           | Inr extracted \<Rightarrow> Inr (strip (join [CHR 0x0A] extracted))))"

section \<open>The actor resolver (ingest\_codex\_jsonl.py)\<close>

text \<open>
  \<^verbatim>\<open>str(v)\<close> is the string itself for a string; for any other value it is Python's
  rendering of the value, which is a parameter of the model.
\<close>

definition py_str :: "(json \<Rightarrow> string) \<Rightarrow> json \<Rightarrow> string" where
  "py_str render v = (case v of JStr s \<Rightarrow> s | _ \<Rightarrow> render v)"

definition guess_actor :: "(json \<Rightarrow> string) \<Rightarrow> json \<Rightarrow> py_error + (json \<times> json)" where
  "guess_actor render event =
     (case event of
        JObj kvs \<Rightarrow>
          (let actor = py_or (dict_get kvs ''participant'')
                         (py_or (dict_get kvs ''actor'') (py_or (dict_get kvs ''source'') (JObj [])));
               name = (case actor of
                         JObj a \<Rightarrow> py_or (dict_get a ''name'') (py_or (dict_get a ''role'') (JStr ''unknown''))
                       | _ \<Rightarrow> JStr (py_str render actor));
               target = py_or (dict_get kvs ''target'') (py_or (dict_get kvs ''recipient'') (JObj []));
               target_name = (case target of
                                JObj a \<Rightarrow> py_or (dict_get a ''name'') (py_or (dict_get a ''role'') (JStr ''unknown''))
                              | _ \<Rightarrow> if truthy target then JStr (py_str render target) else JStr ''unknown'')
           in Inr (name, target_name))
      | _ \<Rightarrow> Inl AttributeError)"

section \<open>The payload classifier (ingest\_codex\_jsonl.py)\<close>

type_synonym ClassifierResult = "string \<times> (string \<times> string)"

definition classifier_orchestrator_payload :: "string \<Rightarrow> ClassifierResult option" where
  "classifier_orchestrator_payload text =
     (if contains text ''OBJECTIVE:'' \<and> contains text ''REQUIREMENTS:'' \<and> contains text ''CONSTRAINTS:''
      then Some (''coder_payload'', (''orchestrator'', ''coder''))
      else if contains text ''SCOPE:'' \<and> contains text ''PASS CRITERIA:'' \<and> contains text ''ARTIFACT REQUESTS:''
      then Some (''tester_payload'', (''orchestrator'', ''tester''))
      else if startswith text ''ISSUE:'' \<and> contains text ''DECISION OPTIONS:''
      then Some (''stuck_payload'', (''orchestrator'', ''stuck''))
      else None)"

text \<open>
  In the first branch of \<^verbatim>\<open>classifier_agent_response\<close> the source also computes a
  status word and a role that it never uses; they have no effect on the result.
\<close>

definition classifier_agent_response :: "string \<Rightarrow> ClassifierResult option" where
  "classifier_agent_response text =
     (if contains text ''STATUS:'' \<and> contains text ''DIFF:'' \<and> contains text ''TESTS:''
      then Some (''coder_response'', (''coder'', ''orchestrator''))
      else if contains text ''STATUS:'' \<and> contains text ''VIEWPORTS:'' \<and> contains text ''RECOMMENDATION:''
      then Some (''tester_response'', (''tester'', ''orchestrator''))
      else if startswith text ''HUMAN DECISION:'' \<and> contains text ''ACTION REQUIRED:''
      then Some (''stuck_response'', (''stuck'', ''orchestrator''))
      else None)"

definition CLASSIFIERS :: "(string \<Rightarrow> ClassifierResult option) list" where
  "CLASSIFIERS = [classifier_orchestrator_payload, classifier_agent_response]"

text \<open>
  The loop of \<^verbatim>\<open>classify_event\<close>: the first classifier with a result wins. A result is
  a non-empty tuple, so \<^verbatim>\<open>if result\<close> is the test for not being \<^verbatim>\<open>None\<close>.
\<close>

fun classify_loop :: "(string \<Rightarrow> ClassifierResult option) list \<Rightarrow> string \<Rightarrow> ClassifierResult option" where
  "classify_loop [] text = None"
| "classify_loop (classifier # rest) text =
     (case classifier text of Some result \<Rightarrow> Some result | None \<Rightarrow> classify_loop rest text)"

definition classify_event :: "string \<Rightarrow> ClassifierResult option" where
  "classify_event text = classify_loop CLASSIFIERS text"

text \<open>
  The fixed priority order as the specification words it: six predicates on the text, each
  with the payload kind and default direction it yields, and first-match dispatch over them.
\<close>

definition spec_predicates :: "((string \<Rightarrow> bool) \<times> ClassifierResult) list" where
  "spec_predicates =
     [(\<lambda>t. contains t ''OBJECTIVE:'' \<and> contains t ''REQUIREMENTS:'' \<and> contains t ''CONSTRAINTS:'',
         (''coder_payload'', (''orchestrator'', ''coder''))),
      (\<lambda>t. contains t ''SCOPE:'' \<and> contains t ''PASS CRITERIA:'' \<and> contains t ''ARTIFACT REQUESTS:'',
         (''tester_payload'', (''orchestrator'', ''tester''))),
      (\<lambda>t. startswith t ''ISSUE:'' \<and> contains t ''DECISION OPTIONS:'',
         (''stuck_payload'', (''orchestrator'', ''stuck''))),
      (\<lambda>t. contains t ''STATUS:'' \<and> contains t ''DIFF:'' \<and> contains t ''TESTS:'',
         (''coder_response'', (''coder'', ''orchestrator''))),
      (\<lambda>t. contains t ''STATUS:'' \<and> contains t ''VIEWPORTS:'' \<and> contains t ''RECOMMENDATION:'',
         (''tester_response'', (''tester'', ''orchestrator''))),
      (\<lambda>t. startswith t ''HUMAN DECISION:'' \<and> contains t ''ACTION REQUIRED:'',
         (''stuck_response'', (''stuck'', ''orchestrator'')))]"

fun spec_first_match :: "((string \<Rightarrow> bool) \<times> ClassifierResult) list \<Rightarrow> string \<Rightarrow> ClassifierResult option" where
  "spec_first_match [] text = None"
| "spec_first_match ((p, r) # rest) text = (if p text then Some r else spec_first_match rest text)"

section \<open>The section validator and the trace builder (ingest\_codex\_jsonl.py)\<close>

definition require_sections :: "string \<Rightarrow> string list \<Rightarrow> string \<Rightarrow> ValidationResult" where
  "require_sections text sections nm =
     (let missing = filter (\<lambda>section. \<not> contains text section) sections
      in \<lparr>name = nm,
          status = (if missing = [] then ''pass'' else ''fail''),
          missing_sections = missing\<rparr>)"

definition VALIDATION_RULES :: "(string \<times> string list) list" where
  "VALIDATION_RULES =
     [(''coder_payload'', [''TODO ID:'', ''OBJECTIVE:'', ''REQUIREMENTS:'', ''CONSTRAINTS:'',
                           ''OUTPUT FORMAT:'', ''POST-CONDITIONS:'', ''```diff'']),
      (''coder_response'', [''TODO ID:'', ''STATUS:'', ''DIFF:'', ''TESTS:'', ''SUMMARY:'', ''FOLLOW-UP:'']),
      (''tester_payload'', [''TODO ID:'', ''SCOPE:'', ''VIEWPORTS:'', ''ARTIFACT REQUESTS:'',
                            ''PASS CRITERIA:'', ''FAILURE HANDOFF:'']),
      (''tester_response'', [''TODO ID:'', ''STATUS:'', ''VIEWPORTS:'', ''STEPS:'', ''ISSUES:'',
                             ''RECOMMENDATION:'']),
      (''stuck_payload'', [''ISSUE:'', ''CONTEXT:'', ''DECISION OPTIONS:'', ''NEEDED BY:'']),
      (''stuck_response'', [''HUMAN DECISION:'', ''ACTION REQUIRED:'', ''FOLLOW-UP:''])]"

text \<open>
  \<^verbatim>\<open>parse_timestamp\<close> calls the \<^verbatim>\<open>datetime\<close> library and the clock. The two
  library expressions are parameters of the model, each with the result found in the source:
  \<^verbatim>\<open>fromtimestamp\<close> is
  \<^verbatim>\<open>datetime.fromtimestamp(value, tz=timezone.utc).replace(microsecond=0).isoformat()\<close>,
  which raises for a number out of the range of the platform and is not guarded;
  \<^verbatim>\<open>fromisoformat\<close> is the expression of the \<^verbatim>\<open>try\<close> block, \<open>None\<close> when it
  raises the \<^verbatim>\<open>ValueError\<close> that the \<^verbatim>\<open>except\<close> clause catches. A Python
  \<^verbatim>\<open>bool\<close> is an \<^verbatim>\<open>int\<close>, so \<^verbatim>\<open>true\<close> and \<^verbatim>\<open>false\<close> count as the
  numbers 1 and 0. \<open>now\<close> is what \<^verbatim>\<open>current_timestamp()\<close> returns when the loop
  over the keys ends without a result.
\<close>

record Datetime =
  fromtimestamp :: "real \<Rightarrow> py_error + string"
  fromisoformat :: "string \<Rightarrow> string option"

text \<open>\<^verbatim>\<open>value.rstrip("Z")\<close>\<close>

definition rstrip_Z :: "string \<Rightarrow> string" where
  "rstrip_Z s = rev (dropWhile (\<lambda>c. c = CHR ''Z'') (rev s))"

fun parse_timestamp_keys ::
  "Datetime \<Rightarrow> string \<Rightarrow> (string \<times> json) list \<Rightarrow> string list \<Rightarrow> py_error + string" where
  "parse_timestamp_keys dt now kvs [] = Inr now"
| "parse_timestamp_keys dt now kvs (key # keys) =
     (case dict_get kvs key of
        JNum x \<Rightarrow> fromtimestamp dt x
      | JBool b \<Rightarrow> fromtimestamp dt (if b then 1 else 0)
      | JStr s \<Rightarrow>
          (case fromisoformat dt (rstrip_Z s) of
             Some stamp \<Rightarrow> Inr stamp
           | None \<Rightarrow> parse_timestamp_keys dt now kvs keys)
      | _ \<Rightarrow> parse_timestamp_keys dt now kvs keys)"

definition parse_timestamp :: "Datetime \<Rightarrow> string \<Rightarrow> json \<Rightarrow> py_error + string" where
  "parse_timestamp dt now event =
     (case event of
        JObj kvs \<Rightarrow> parse_timestamp_keys dt now kvs [''timestamp'', ''created'', ''time'']
      | _ \<Rightarrow> Inl AttributeError)"

text \<open>\<^verbatim>\<open>s.endswith(suffix)\<close>\<close>

definition endswith :: "string \<Rightarrow> string \<Rightarrow> bool" where
  "endswith s suf = startswith (rev s) (rev suf)"

text \<open>
  The body of the loop of \<^verbatim>\<open>extract_events\<close> for one classified record, after the
  two \<^verbatim>\<open>continue\<close> tests: the event record, and the validation it adds (none when
  the payload kind has no rule).
\<close>

definition make_event ::
  "string \<Rightarrow> nat \<Rightarrow> string \<Rightarrow> ClassifierResult \<Rightarrow> json \<times> json \<Rightarrow> json EventRecord" where
  "make_event stamp seq text classification guess =
     (let kind = fst classification;
          inferred_direction = snd classification;
          sender_guess = fst guess;
          recipient_guess = snd guess
      in \<lparr>sequence = seq,
          timestamp = stamp,
          sender = (if sender_guess \<noteq> JStr ''unknown''
                       \<and> sender_guess \<notin> {JStr ''assistant'', JStr ''system''}
                    then sender_guess else JStr (fst inferred_direction)),
          recipient = (if recipient_guess \<noteq> JStr ''unknown''
                       then recipient_guess else JStr (snd inferred_direction)),
          role = (if endswith kind ''payload'' then ''delegation'' else ''completion''),
          payload_type = kind,
          content = text\<rparr>)"

definition make_validation :: "string \<Rightarrow> string \<Rightarrow> ValidationResult list" where
  "make_validation text kind =
     (let sections = (case map_of VALIDATION_RULES kind of Some ss \<Rightarrow> ss | None \<Rightarrow> [])
      in if sections \<noteq> []
         then (let todo_fragment = (case TODO_ID_PATTERN_search text of
                                      Some g \<Rightarrow> g
                                    | None \<Rightarrow> kind)
               in [require_sections text sections (kind @ ''_'' @ todo_fragment)])
         else [])"

text \<open>
  The loop of \<^verbatim>\<open>extract_events\<close>. \<^verbatim>\<open>clock n\<close> is the reading of the clock in the
  call of \<^verbatim>\<open>parse_timestamp\<close> for the record that gets the sequence number \<open>n\<close>; the
  rendering of \<^const>\<open>py_str\<close> is a parameter too. An exception of
  \<^verbatim>\<open>flatten_text\<close>, \<^verbatim>\<open>guess_actor\<close> or \<^verbatim>\<open>parse_timestamp\<close> ends the loop.
\<close>

fun extract_loop ::
  "Datetime \<Rightarrow> (nat \<Rightarrow> string) \<Rightarrow> (json \<Rightarrow> string) \<Rightarrow> json list \<Rightarrow> nat
     \<Rightarrow> json EventRecord list \<Rightarrow> ValidationResult list
     \<Rightarrow> py_error + (json EventRecord list \<times> ValidationResult list)" where
  "extract_loop dt clock render [] seq results validations = Inr (results, validations)"
| "extract_loop dt clock render (raw_event # rest) seq results validations =
     (case flatten_text raw_event of
        Inl e \<Rightarrow> Inl e
      | Inr text \<Rightarrow>
          if text = [] then extract_loop dt clock render rest seq results validations
          else (case classify_event text of
                  None \<Rightarrow> extract_loop dt clock render rest seq results validations
                | Some classification \<Rightarrow>
                    (case guess_actor render raw_event of
                       Inl e \<Rightarrow> Inl e
                     | Inr guess \<Rightarrow>
                         (case parse_timestamp dt (clock (seq + 1)) raw_event of
                            Inl e \<Rightarrow> Inl e
                          | Inr stamp \<Rightarrow>
                              extract_loop dt clock render rest (seq + 1)
                                (results @ [make_event stamp (seq + 1) text classification guess])
                                (validations @ make_validation text (fst classification))))))"

definition extract_events ::
  "Datetime \<Rightarrow> (nat \<Rightarrow> string) \<Rightarrow> (json \<Rightarrow> string) \<Rightarrow> json list
     \<Rightarrow> py_error + (json EventRecord list \<times> ValidationResult list)" where
  "extract_events dt clock render events = extract_loop dt clock render events 0 [] []"

section \<open>The state machine reconstructor (ingest\_codex\_jsonl.py)\<close>

text \<open>
  Every branch of the \<^verbatim>\<open>if/elif\<close> chain of \<^verbatim>\<open>build_state_snapshots\<close> has one
  shape: it assigns \<^verbatim>\<open>phase\<close>, in one branch \<^verbatim>\<open>active_todo\<close>, in some
  \<^verbatim>\<open>todo_status[todo_id]\<close>, and then appends a snapshot with a note. A
  \<open>Transition\<close> holds these assignments. Each condition of the chain is
  \<^verbatim>\<open>event.payload_type == kind and todo_id\<close>, and group 1 of a match is never empty, so
  no branch is taken when the pattern does not match.
\<close>

record Transition =
  to_phase :: string
  set_active_todo :: "string option"
  set_status :: "(string \<times> string) option"
  with_note :: string

definition transition :: "'a EventRecord \<Rightarrow> Transition option" where
  "transition event =
     (case TODO_ID_PATTERN_search (content event) of
        None \<Rightarrow> None
      | Some todo_id \<Rightarrow>
          if payload_type event = ''coder_payload''
          then Some \<lparr>to_phase = ''dispatch'', set_active_todo = Some todo_id,
                      set_status = Some (todo_id, ''in_progress''),
                      with_note = ''Dispatching '' @ todo_id @ '' to coder.''\<rparr>
          else if payload_type event = ''coder_response''
          then (if status_token (content event) = ''success''
                then Some \<lparr>to_phase = ''verifying'', set_active_todo = None,
                            set_status = Some (todo_id, ''verifying''),
                            with_note = ''Awaiting tester results for '' @ todo_id @ ''.''\<rparr>
                else Some \<lparr>to_phase = ''escalating'', set_active_todo = None,
                            set_status = Some (todo_id, ''blocked''),
                            with_note = ''Coder reported failure for '' @ todo_id @ ''.''\<rparr>)
          else if payload_type event = ''tester_payload''
          then Some \<lparr>to_phase = ''verifying'', set_active_todo = None, set_status = None,
                      with_note = ''Tester engaged for '' @ todo_id @ ''.''\<rparr>
          else if payload_type event = ''tester_response''
          then (if status_token (content event) = ''pass''
                then Some \<lparr>to_phase = ''dispatch'', set_active_todo = None,
                            set_status = Some (todo_id, ''complete''),
                            with_note = ''Tester passed '' @ todo_id @ ''; returning to queue.''\<rparr>
                else Some \<lparr>to_phase = ''escalating'', set_active_todo = None,
                            set_status = Some (todo_id, ''blocked''),
                            with_note = ''Tester failed '' @ todo_id @ ''; escalating.''\<rparr>)
          else if payload_type event = ''stuck_payload''
          then Some \<lparr>to_phase = ''escalating'', set_active_todo = None, set_status = None,
                      with_note = ''Escalating '' @ todo_id @ '' to stuck agent.''\<rparr>
          else if payload_type event = ''stuck_response''
          then Some \<lparr>to_phase = ''planning'', set_active_todo = None,
                      set_status = Some (todo_id, ''pending''),
                      with_note = ''Human guidance received for '' @ todo_id @ ''.''\<rparr>
          else None)"

text \<open>
  The local variables of \<^verbatim>\<open>build_state_snapshots\<close>. Nothing reads
  \<^verbatim>\<open>todo_status\<close> by key, so the default of the \<^verbatim>\<open>defaultdict\<close> is never produced.
\<close>

record Reconstructor =
  cur_phase :: string
  cur_active_todo :: "string option"
  todo_status :: "string \<rightharpoonup> string"
  snapshots :: "StateSnapshot list"

definition append_snapshot :: "string \<Rightarrow> string \<Rightarrow> Reconstructor \<Rightarrow> Reconstructor" where
  "append_snapshot nt stamp st =
     st\<lparr>snapshots := snapshots st @
          [\<lparr>snap_timestamp = stamp, phase = cur_phase st, active_todo = cur_active_todo st,
            todo_statuses = todo_status st, snap_note = nt\<rparr>]\<rparr>"

definition assign :: "Transition \<Rightarrow> Reconstructor \<Rightarrow> Reconstructor" where
  "assign tr st =
     st\<lparr>cur_phase := to_phase tr,
        cur_active_todo := (case set_active_todo tr of Some t \<Rightarrow> Some t | None \<Rightarrow> cur_active_todo st),
        todo_status := (case set_status tr of
                          Some (k, v) \<Rightarrow> (todo_status st)(k \<mapsto> v)
                        | None \<Rightarrow> todo_status st)\<rparr>"

definition process_event :: "'a EventRecord \<Rightarrow> Reconstructor \<Rightarrow> Reconstructor" where
  "process_event event st =
     (case transition event of
        None \<Rightarrow> st
      | Some tr \<Rightarrow> append_snapshot (with_note tr) (timestamp event) (assign tr st))"

definition initial :: Reconstructor where
  "initial = \<lparr>cur_phase = ''bootstrap'', cur_active_todo = None, todo_status = Map.empty, snapshots = []\<rparr>"

definition bootstrap :: "'a EventRecord list \<Rightarrow> Reconstructor" where
  "bootstrap events =
     (case events of
        [] \<Rightarrow> initial
      | first # _ \<Rightarrow> append_snapshot ''Captured session metadata from raw log.'' (timestamp first) initial)"

definition build_state_snapshots :: "'a EventRecord list \<Rightarrow> StateSnapshot list" where
  "build_state_snapshots events = snapshots (fold process_event events (bootstrap events))"

text \<open>
  The same function with the dict objects in an explicit store, to follow what is shared.
  Address 0 holds \<^verbatim>\<open>todo_status\<close>; \<^verbatim>\<open>dict(todo_status)\<close> allocates the next free
  address and copies the items there; a snapshot holds the address of its dict. The caller
  reads the dicts through these addresses after the loop has ended.
\<close>

record SnapshotObject =
  obj_timestamp :: string
  obj_phase :: string
  obj_active_todo :: "string option"
  obj_todo_statuses :: nat
  obj_note :: string

record Store =
  heap :: "nat \<Rightarrow> (string \<rightharpoonup> string)"
  free :: nat
  var_phase :: string
  var_active_todo :: "string option"
  var_snapshots :: "SnapshotObject list"

definition store_append_snapshot :: "string \<Rightarrow> string \<Rightarrow> Store \<Rightarrow> Store" where
  "store_append_snapshot nt stamp st =
     st\<lparr>heap := (heap st)(free st := heap st 0),
        free := Suc (free st),
        var_snapshots := var_snapshots st @
          [\<lparr>obj_timestamp = stamp, obj_phase = var_phase st, obj_active_todo = var_active_todo st,
            obj_todo_statuses = free st, obj_note = nt\<rparr>]\<rparr>"

definition store_assign :: "Transition \<Rightarrow> Store \<Rightarrow> Store" where
  "store_assign tr st =
     st\<lparr>var_phase := to_phase tr,
        var_active_todo := (case set_active_todo tr of Some t \<Rightarrow> Some t | None \<Rightarrow> var_active_todo st),
        heap := (case set_status tr of
                   Some (k, v) \<Rightarrow> (heap st)(0 := (heap st 0)(k \<mapsto> v))
                 | None \<Rightarrow> heap st)\<rparr>"

definition store_process_event :: "'a EventRecord \<Rightarrow> Store \<Rightarrow> Store" where
  "store_process_event event st =
     (case transition event of
        None \<Rightarrow> st
      | Some tr \<Rightarrow> store_append_snapshot (with_note tr) (timestamp event) (store_assign tr st))"

definition store_initial :: Store where
  "store_initial =
     \<lparr>heap = (\<lambda>a. Map.empty), free = 1, var_phase = ''bootstrap'', var_active_todo = None,
      var_snapshots = []\<rparr>"

definition store_bootstrap :: "'a EventRecord list \<Rightarrow> Store" where
  "store_bootstrap events =
     (case events of
        [] \<Rightarrow> store_initial
      | first # _ \<Rightarrow>
          store_append_snapshot ''Captured session metadata from raw log.'' (timestamp first) store_initial)"

definition store_run :: "'a EventRecord list \<Rightarrow> Store" where
  "store_run events = fold store_process_event events (store_bootstrap events)"

definition read_snapshot :: "Store \<Rightarrow> SnapshotObject \<Rightarrow> StateSnapshot" where
  "read_snapshot st obj =
     \<lparr>snap_timestamp = obj_timestamp obj, phase = obj_phase obj, active_todo = obj_active_todo obj,
      todo_statuses = heap st (obj_todo_statuses obj), snap_note = obj_note obj\<rparr>"

definition store_build_state_snapshots :: "'a EventRecord list \<Rightarrow> StateSnapshot list" where
  "store_build_state_snapshots events =
     (let st = store_run events in map (read_snapshot st) (var_snapshots st))"

subsection \<open>Invariants of the reconstructor and of its store\<close>

text \<open>The keys of the accumulator only grow, and every snapshot holds keys of the accumulator.\<close>

definition keys_grow :: "Reconstructor \<Rightarrow> bool" where
  "keys_grow st \<longleftrightarrow>
     (\<forall>i j. i < j \<and> j < length (snapshots st) \<longrightarrow>
        dom (todo_statuses (snapshots st ! i)) \<subseteq> dom (todo_statuses (snapshots st ! j)))
     \<and> (\<forall>s \<in> set (snapshots st). dom (todo_statuses s) \<subseteq> dom (todo_status st))"

text \<open>The store model: what relates a store to the state of the functional model.\<close>

definition store_rel :: "Store \<Rightarrow> Reconstructor \<Rightarrow> bool" where
  "store_rel s st \<longleftrightarrow>
     var_phase s = cur_phase st \<and> var_active_todo s = cur_active_todo st
     \<and> heap s 0 = todo_status st
     \<and> map (read_snapshot s) (var_snapshots s) = snapshots st
     \<and> (\<forall>obj \<in> set (var_snapshots s). 0 < obj_todo_statuses obj \<and> obj_todo_statuses obj < free s)
     \<and> distinct (map obj_todo_statuses (var_snapshots s))
     \<and> 0 < free s"

text \<open>Later events leave the objects of the emitted snapshots as they are.\<close>

definition keeps :: "Store \<Rightarrow> Store \<Rightarrow> bool" where
  "keeps s s' \<longleftrightarrow>
     prefix (var_snapshots s) (var_snapshots s') \<and> free s \<le> free s'
     \<and> (\<forall>a. 0 < a \<and> a < free s \<longrightarrow> heap s' a = heap s a)"

section \<open>The diff engine (compare\_workflows.py)\<close>

text \<open>
  The events of a trace file are dicts with the fields of \<^typ>\<open>string EventRecord\<close>. The
  fields \<^verbatim>\<open>payload_type\<close>, \<^verbatim>\<open>sender\<close> and \<^verbatim>\<open>recipient\<close> of \<^verbatim>\<open>EventKey\<close>
  carry the prefix \<open>key_\<close> here.
\<close>

record EventKey =
  key_payload_type :: string
  todo_id :: string
  key_sender :: string
  key_recipient :: string

text \<open>
  \<^verbatim>\<open>str.splitlines()\<close>: a line ends at a line boundary, a carriage return followed by
  a line feed is one boundary, and no empty line follows the last boundary.
\<close>

function splitlines_from :: "string \<Rightarrow> string \<Rightarrow> string list" where
  "splitlines_from line [] = (if line = [] then [] else [line])"
| "splitlines_from line (c # cs) =
     (if is_linebreak c
      then line # splitlines_from []
                    (if c = CHR 0x0D \<and> cs \<noteq> [] \<and> hd cs = CHR 0x0A then tl cs else cs)
      else splitlines_from (line @ [c]) cs)"
  by pat_completeness auto
termination
  by (relation "measure (\<lambda>(line, s). length s)") auto

definition splitlines :: "string \<Rightarrow> string list" where
  "splitlines s = splitlines_from [] s"

text \<open>\<^verbatim>\<open>line.split(":", 1)[1]\<close>: what follows the first colon; an \<^verbatim>\<open>IndexError\<close> without one.\<close>

definition after_colon :: "string \<Rightarrow> py_error + string" where
  "after_colon line =
     (if CHR '':'' \<in> set line
      then Inr (tl (dropWhile (\<lambda>c. c \<noteq> CHR '':'') line))
      else Inl IndexError)"

text \<open>The loop over the lines, with its \<^verbatim>\<open>break\<close> at the first line that qualifies.\<close>

fun find_todo_id :: "string list \<Rightarrow> py_error + string" where
  "find_todo_id [] = Inr ''unknown''"
| "find_todo_id (line # rest) =
     (if startswith (lower (strip line)) ''todo id:''
      then (case after_colon line of Inl e \<Rightarrow> Inl e | Inr r \<Rightarrow> Inr (strip r))
      else find_todo_id rest)"

definition extract_event_key :: "string EventRecord \<Rightarrow> py_error + EventKey" where
  "extract_event_key event =
     (case find_todo_id (splitlines (content event)) of
        Inl e \<Rightarrow> Inl e
      | Inr t \<Rightarrow>
          Inr \<lparr>key_payload_type = payload_type event, todo_id = t,
               key_sender = sender event, key_recipient = recipient event\<rparr>)"

text \<open>The list comprehension \<^verbatim>\<open>[extract_event_key(evt) for evt in events]\<close>.\<close>

fun event_keys :: "string EventRecord list \<Rightarrow> py_error + EventKey list" where
  "event_keys [] = Inr []"
| "event_keys (evt # rest) =
     (case extract_event_key evt of
        Inl e \<Rightarrow> Inl e
      | Inr k \<Rightarrow> (case event_keys rest of Inl e \<Rightarrow> Inl e | Inr ks \<Rightarrow> Inr (k # ks)))"

text \<open>
  \<^verbatim>\<open>next(i for i, key in enumerate(actual_keys) if ...)\<close>, scanning from index \<open>i\<close>;
  \<open>None\<close> stands for \<^verbatim>\<open>StopIteration\<close>. The list of flags is as long as the list of
  keys, so every read \<^verbatim>\<open>actual_consumed[i]\<close> is in range.
\<close>

fun next_match :: "EventKey list \<Rightarrow> bool list \<Rightarrow> EventKey \<Rightarrow> nat \<Rightarrow> nat option" where
  "next_match [] actual_consumed base_key i = None"
| "next_match (key # keys) actual_consumed base_key i =
     (if \<not> actual_consumed ! i
         \<and> key_payload_type key = key_payload_type base_key
         \<and> todo_id key = todo_id base_key
      then Some i
      else next_match keys actual_consumed base_key (Suc i))"

definition routing_mismatch :: "EventKey \<Rightarrow> EventKey \<Rightarrow> string" where
  "routing_mismatch base_key actual_key =
     ''Routing mismatch for '' @ key_payload_type base_key @ '' '' @ todo_id base_key @ '': ''
     @ ''baseline '' @ key_sender base_key @ ''->'' @ key_recipient base_key @ '', ''
     @ ''actual '' @ key_sender actual_key @ ''->'' @ key_recipient actual_key"

definition missing_event :: "EventKey \<Rightarrow> string" where
  "missing_event base_key =
     ''Missing event '' @ key_payload_type base_key @ '' for '' @ todo_id base_key"

definition unexpected_event :: "EventKey \<Rightarrow> string" where
  "unexpected_event key =
     ''Unexpected event '' @ key_payload_type key @ '' for '' @ todo_id key
     @ '' ('' @ key_sender key @ ''->'' @ key_recipient key @ '')''"

text \<open>The body of the loop over the baseline keys, on the pair of the flags and \<^verbatim>\<open>missing\<close>.\<close>

definition match_step :: "EventKey list \<Rightarrow> bool list \<times> string list \<Rightarrow> EventKey \<Rightarrow> bool list \<times> string list" where
  "match_step actual_keys state base_key =
     (let actual_consumed = fst state; missing = snd state
      in case next_match actual_keys actual_consumed base_key 0 of
           Some idx \<Rightarrow>
             (let actual_key = actual_keys ! idx
              in (actual_consumed[idx := True],
                  if key_sender actual_key \<noteq> key_sender base_key
                     \<or> key_recipient actual_key \<noteq> key_recipient base_key
                  then missing @ [routing_mismatch base_key actual_key]
                  else missing))
         | None \<Rightarrow> (actual_consumed, missing @ [missing_event base_key]))"

definition unconsumed :: "EventKey list \<Rightarrow> bool list \<Rightarrow> EventKey list" where
  "unconsumed actual_keys actual_consumed =
     map fst (filter (\<lambda>(key, consumed). \<not> consumed) (zip actual_keys actual_consumed))"

definition compare_keys :: "EventKey list \<Rightarrow> EventKey list \<Rightarrow> string list \<times> string list" where
  "compare_keys baseline_keys actual_keys =
     (let final = foldl (match_step actual_keys)
                    (replicate (length actual_keys) False, []) baseline_keys
      in (snd final, map unexpected_event (unconsumed actual_keys (fst final))))"

definition compare_events ::
  "string EventRecord list \<Rightarrow> string EventRecord list \<Rightarrow> py_error + (string list \<times> string list)" where
  "compare_events baseline_events actual_events =
     (case event_keys baseline_events of
        Inl e \<Rightarrow> Inl e
      | Inr baseline_keys \<Rightarrow>
          (case event_keys actual_events of
             Inl e \<Rightarrow> Inl e
           | Inr actual_keys \<Rightarrow> Inr (compare_keys baseline_keys actual_keys)))"

definition collect_validation_failures :: "ValidationResult list \<Rightarrow> string list" where
  "collect_validation_failures validations =
     map (\<lambda>entry. name entry @ '' missing sections '' @ join '', '' (missing_sections entry))
       (filter (\<lambda>entry. status entry \<noteq> ''pass'') validations)"

text \<open>
  A finding of \<^verbatim>\<open>compare_state_snapshots\<close> is a message; each constructor below is one
  of its four messages, with the values the message interpolates (the snapshot number
  \<^verbatim>\<open>idx + 1\<close>, the phases, the two dicts, the surplus count).
\<close>

datatype SnapshotIssue =
    Missing_state_snapshot nat string
  | Phase_mismatch nat string string
  | Todo_statuses_differ nat "string \<rightharpoonup> string" "string \<rightharpoonup> string"
  | Extra_state_snapshots nat

fun snapshot_loop :: "nat \<Rightarrow> StateSnapshot list \<Rightarrow> StateSnapshot list \<Rightarrow> SnapshotIssue list" where
  "snapshot_loop idx [] actual = []"
| "snapshot_loop idx (base_snapshot # rest) actual =
     (if idx \<ge> length actual
      then [Missing_state_snapshot (idx + 1) (phase base_snapshot)]
      else (let actual_snapshot = actual ! idx
            in (if phase base_snapshot \<noteq> phase actual_snapshot
                then [Phase_mismatch (idx + 1) (phase base_snapshot) (phase actual_snapshot)]
                else [])
               @ (if todo_statuses base_snapshot \<noteq> todo_statuses actual_snapshot
                  then [Todo_statuses_differ (idx + 1) (todo_statuses base_snapshot)
                          (todo_statuses actual_snapshot)]
                  else [])))
     @ snapshot_loop (Suc idx) rest actual"

definition compare_state_snapshots :: "StateSnapshot list \<Rightarrow> StateSnapshot list \<Rightarrow> SnapshotIssue list" where
  "compare_state_snapshots baseline actual =
     snapshot_loop 0 baseline actual
     @ (if length actual > length baseline
        then [Extra_state_snapshots (length actual - length baseline)]
        else [])"

text \<open>A well-formed trace file, and the four lists of findings that \<^verbatim>\<open>main\<close> computes.\<close>

record NormalizedTrace =
  session_id :: string
  generated_at :: string
  events :: "string EventRecord list"
  state_snapshots :: "StateSnapshot list"
  validations :: "ValidationResult list"

record Findings =
  missing_events :: "string list"
  extra_events :: "string list"
  validation_failures :: "string list"
  state_diffs :: "SnapshotIssue list"

definition diff :: "NormalizedTrace \<Rightarrow> NormalizedTrace \<Rightarrow> py_error + Findings" where
  "diff baseline actual =
     (case compare_events (events baseline) (events actual) of
        Inl e \<Rightarrow> Inl e
      | Inr (missing, extra) \<Rightarrow>
          Inr \<lparr>missing_events = missing,
               extra_events = extra,
               validation_failures = collect_validation_failures (validations actual),
               state_diffs = compare_state_snapshots (state_snapshots baseline) (state_snapshots actual)\<rparr>)"

text \<open>The test of the matcher: equal \<^verbatim>\<open>(payload_type, todo_id)\<close>.\<close>

definition same_item :: "EventKey \<Rightarrow> EventKey \<Rightarrow> bool" where
  "same_item key base_key \<longleftrightarrow>
     key_payload_type key = key_payload_type base_key \<and> todo_id key = todo_id base_key"

text \<open>The test that \<^const>\<open>find_todo_id\<close> applies to a line.\<close>

definition is_todo_id_line :: "string \<Rightarrow> bool" where
  "is_todo_id_line line \<longleftrightarrow> startswith (lower (strip line)) ''todo id:''"

text \<open>The rule of \<^const>\<open>make_event\<close> for the role, on the six payload kinds.\<close>

definition role_rule :: "'a EventRecord \<Rightarrow> bool" where
  "role_rule e \<longleftrightarrow>
     (role e = ''delegation'' \<longleftrightarrow> endswith (payload_type e) ''payload'')
     \<and> (payload_type e \<in> {''coder_payload'', ''tester_payload'', ''stuck_payload''}
          \<and> role e = ''delegation''
        \<or> payload_type e \<in> {''coder_response'', ''tester_response'', ''stuck_response''}
          \<and> role e = ''completion'')"

section \<open>The simulated run (run\_workflow\_simulation.py)\<close>

text \<open>
  The texts of \<^verbatim>\<open>build_simulation\<close>. Each is one string literal of several lines
  in the source and is written here as its lines, joined by line feeds. The text of the
  stuck payload ends with the time \<^verbatim>\<open>needed_by\<close>, five minutes after the start of the
  run.
\<close>

definition coder_payload_001 :: string where
  "coder_payload_001 =
     join [CHR 0x0A]
       [''TODO ID: todo-001'',
        ''OBJECTIVE: Implement audit logger utility'',
        ''REQUIREMENTS:'',
        ''- Update module `src/audit/logger.py` to emit deterministic log entries.'',
        ''- Create tests in `tests/test_logger.py` verifying formatted output.'',
        ''- Ensure CLI command `python -m audit.logger --demo` prints a sample entry.'',
        ''CONSTRAINTS:'',
        ''- Follow deterministic templates'',
        ''- No TODOs or placeholders'',
        ''OUTPUT FORMAT:'',
        ''```diff'',
        ''<apply_patch style diff>'',
        ''```'',
        ''POST-CONDITIONS:'',
        ''- Tests listed above executed'',
        ''- Summary + verification log returned'']"

definition coder_response_001 :: string where
  "coder_response_001 =
     join [CHR 0x0A]
       [''TODO ID: todo-001'',
        ''STATUS: success'',
        ''DIFF:'',
        ''```diff'',
        ''*** Begin Patch'',
        ''*** Add File: src/audit/logger.py'',
        ''+from datetime import datetime'',
        ''+'',
        ''+def emit_event(phase: str, message: str) -> str:'',
        ''+    timestamp = datetime.utcnow().strftime(\"%Y-%m-%dT%H:%M:%SZ\")'',
        ''+    return f\"[{timestamp}] {phase.upper()}: {message}\"'',
        ''*** End Patch'',
        ''*** Begin Patch'',
        ''*** Add File: tests/test_logger.py'',
        ''+from audit.logger import emit_event'',
        ''+'',
        ''+def test_emit_event_formats_payload(monkeypatch):'',
        ''+    class _FakeDateTime:'',
        ''+        @classmethod'',
        ''+        def utcnow(cls):'',
        ''+            return type(\"dt\", (), {\"strftime\": lambda self, fmt: \"2024-01-01T00:00:00Z\"})()'',
        ''+'',
        ''+    monkeypatch.setattr(\"audit.logger.datetime\", _FakeDateTime)'',
        ''+    result = emit_event(\"dispatch\", \"Invoked coder\")'',
        ''+    assert result == \"[2024-01-01T00:00:00Z] DISPATCH: Invoked coder\"'',
        ''*** End Patch'',
        ''```'',
        ''TESTS:'',
        ''- command: pytest tests/test_logger.py'',
        ''  exit_code: 0'',
        ''  output: |'',
        ''    ============================= test session starts =============================='',
        ''    collected 1 item'',
        ''    tests/test_logger.py .                                                      [100%]'',
        ''    ============================== 1 passed in 0.02s ==============================='',
        ''SUMMARY:'',
        ''- Added audit logger helper with deterministic timestamp formatting and coverage test.'',
        ''FOLLOW-UP:'',
        ''- none'']"

definition tester_payload_001 :: string where
  "tester_payload_001 =
     join [CHR 0x0A]
       [''TODO ID: todo-001'',
        ''SCOPE:'',
        ''- Launch CLI demo via `python -m audit.logger --demo`.'',
        ''- Capture rendered log output exposed at http://localhost:4173/audit.'',
        ''VIEWPORTS:'',
        ''- 1280x720'',
        ''- 390x844'',
        ''ARTIFACT REQUESTS:'',
        ''- Screenshot filenames: todo-001-main-1280x720.png, todo-001-main-390x844.png'',
        ''- Console log capture if failures occur'',
        ''PASS CRITERIA:'',
        ''- Visual output contains `[YYYY-MM-DDTHH:MM:SSZ] DISPATCH: Invoked coder`.'',
        ''- No console errors during navigation.'',
        ''FAILURE HANDOFF:'',
        ''- Invoke stuck with screenshot + console summary'']"

definition tester_response_001 :: string where
  "tester_response_001 =
     join [CHR 0x0A]
       [''TODO ID: todo-001'',
        ''STATUS: pass'',
        ''VIEWPORTS:'',
        ''- size: 1280x720'',
        ''  screenshot: todo-001-main-1280x720.png'',
        ''- size: 390x844'',
        ''  screenshot: todo-001-main-390x844.png'',
        ''STEPS:'',
        ''- action: navigate http://localhost:4173/audit'',
        ''  result: success'',
        ''  console_errors: []'',
        ''- action: verify rendered audit log entry'',
        ''  result: success'',
        ''  console_errors: []'',
        ''ISSUES:'',
        ''- none'',
        ''RECOMMENDATION:'',
        ''- ready for release'']"

definition coder_payload_002 :: string where
  "coder_payload_002 =
     join [CHR 0x0A]
       [''TODO ID: todo-002'',
        ''OBJECTIVE: Integrate audit logger into CLI entrypoint'',
        ''REQUIREMENTS:'',
        ''- Modify `cli/main.py` to call `emit_event` during startup.'',
        ''- Wire CLI argument `--demo` to print the formatted log message.'',
        ''- Update documentation in `README.md` to mention the new command.'',
        ''CONSTRAINTS:'',
        ''- Follow deterministic templates'',
        ''- No TODOs or placeholders'',
        ''OUTPUT FORMAT:'',
        ''```diff'',
        ''<apply_patch style diff>'',
        ''```'',
        ''POST-CONDITIONS:'',
        ''- Tests listed above executed'',
        ''- Summary + verification log returned'']"

definition coder_response_002 :: string where
  "coder_response_002 =
     join [CHR 0x0A]
       [''TODO ID: todo-002'',
        ''STATUS: failed'',
        ''DIFF:'',
        ''```diff'',
        ''(no changes)'',
        ''```'',
        ''TESTS:'',
        ''- command: python cli/main.py --demo'',
        ''  exit_code: 1'',
        ''  output: |'',
        ''    Traceback (most recent call last):'',
        ''      File \"cli/main.py\", line 3, in <module>'',
        ''        from audit.logger import emit_event'',
        ''    ModuleNotFoundError: No module named 'audit'' @ [CHR 0x27],
        ''SUMMARY:'',
        ''- Unable to import `audit.logger` from CLI entrypoint; package is missing.'',
        ''FOLLOW-UP:'',
        ''- Request guidance via stuck agent.'']"

definition stuck_payload :: "string \<Rightarrow> string" where
  "stuck_payload needed_by =
     join [CHR 0x0A]
       [''ISSUE: ModuleNotFoundError for `audit.logger`'',
        ''CONTEXT:'',
        ''- Todo ID: todo-002'',
        ''- Last successful step: Planned CLI integration before executing demo command.'',
        ''- Error output: ModuleNotFoundError: No module named 'audit'' @ [CHR 0x27],
        ''DECISION OPTIONS:'',
        ''- Option A: Create `src/audit/__init__.py` and retry the command.'',
        ''- Option B: Update CLI execution environment to include project root on PYTHONPATH.'',
        ''- Option C: Request different approach.'',
        ''NEEDED BY: '' @ needed_by]"

definition stuck_response :: string where
  "stuck_response =
     join [CHR 0x0A]
       [''HUMAN DECISION: Option A'',
        ''ACTION REQUIRED:'',
        ''- Add `src/audit/__init__.py` so the package resolves.'',
        ''- Re-run `python cli/main.py --demo` to confirm the logger output.'',
        ''FOLLOW-UP:'',
        ''- none'']"

text \<open>
  The lists and variables of \<^verbatim>\<open>build_simulation\<close>, and its statements as functions on
  them. \<^verbatim>\<open>ts\<close> gives the time stamp at an offset in seconds after the start of the
  run; the start is read from the clock, so \<^verbatim>\<open>ts\<close> is a parameter, as are
  \<^verbatim>\<open>needed_by\<close> and the time stamp \<^verbatim>\<open>generated_at\<close> of the result.
\<close>

record Simulation =
  sim_events :: "string EventRecord list"
  sim_snapshots :: "StateSnapshot list"
  sim_validations :: "ValidationResult list"
  todo_queue :: "string \<rightharpoonup> string"
  sim_active_todo :: "string option"

definition record_snapshot ::
  "(nat \<Rightarrow> string) \<Rightarrow> nat \<Rightarrow> string \<Rightarrow> string \<Rightarrow> Simulation \<Rightarrow> Simulation" where
  "record_snapshot ts offset ph nt s =
     s\<lparr>sim_snapshots := sim_snapshots s @
          [\<lparr>snap_timestamp = ts offset, phase = ph, active_todo = sim_active_todo s,
            todo_statuses = todo_queue s, snap_note = nt\<rparr>]\<rparr>"

definition assign_todo :: "string \<Rightarrow> string \<Rightarrow> Simulation \<Rightarrow> Simulation" where
  "assign_todo k v s = s\<lparr>todo_queue := (todo_queue s)(k \<mapsto> v)\<rparr>"

definition assign_active_todo :: "string option \<Rightarrow> Simulation \<Rightarrow> Simulation" where
  "assign_active_todo a s = s\<lparr>sim_active_todo := a\<rparr>"

definition append_validation :: "string \<Rightarrow> string list \<Rightarrow> string \<Rightarrow> Simulation \<Rightarrow> Simulation" where
  "append_validation text sections nm s =
     s\<lparr>sim_validations := sim_validations s @ [require_sections text sections nm]\<rparr>"

definition append_event ::
  "string \<Rightarrow> string \<Rightarrow> string \<Rightarrow> string \<Rightarrow> string \<Rightarrow> string \<Rightarrow> Simulation \<Rightarrow> Simulation" where
  "append_event stamp src dst rl kind text s =
     s\<lparr>sim_events := sim_events s @
          [\<lparr>sequence = length (sim_events s) + 1, timestamp = stamp, sender = src,
            recipient = dst, role = rl, payload_type = kind, content = text\<rparr>]\<rparr>"

definition simulation_start :: Simulation where
  "simulation_start =
     \<lparr>sim_events = [], sim_snapshots = [], sim_validations = [],
      todo_queue = [''todo-001'' \<mapsto> ''pending'', ''todo-002'' \<mapsto> ''pending''],
      sim_active_todo = None\<rparr>"

text \<open>The statements of \<^verbatim>\<open>build_simulation\<close>, in the order of the source.\<close>

definition simulation_steps :: "(nat \<Rightarrow> string) \<Rightarrow> string \<Rightarrow> (Simulation \<Rightarrow> Simulation) list" where
  "simulation_steps ts needed_by =
     [record_snapshot ts 0 ''bootstrap'' ''Captured repository, sandbox, and instruction context.'',
      assign_todo ''todo-001'' ''pending'',
      assign_todo ''todo-002'' ''pending'',
      record_snapshot ts 5 ''planning'' ''Initialized todo queue with two deterministic items.'',
      assign_active_todo (Some ''todo-001''),
      assign_todo ''todo-001'' ''in_progress'',
      record_snapshot ts 10 ''dispatch'' ''Dispatching todo-001 to coder.'',
      append_validation coder_payload_001
        [''TODO ID:'', ''OBJECTIVE:'', ''REQUIREMENTS:'', ''CONSTRAINTS:'', ''OUTPUT FORMAT:'',
         ''POST-CONDITIONS:'', ''```diff'']
        ''coder_payload_todo-001'',
      append_event (ts 12) ''orchestrator'' ''coder'' ''delegation'' ''coder_payload''
        coder_payload_001,
      append_validation coder_response_001
        [''TODO ID:'', ''STATUS:'', ''DIFF:'', ''```diff'', ''TESTS:'', ''SUMMARY:'', ''FOLLOW-UP:'']
        ''coder_response_todo-001'',
      append_event (ts 25) ''coder'' ''orchestrator'' ''completion'' ''coder_response''
        coder_response_001,
      assign_todo ''todo-001'' ''verifying'',
      record_snapshot ts 26 ''verifying'' ''Awaiting tester validation for todo-001 output.'',
      append_validation tester_payload_001
        [''TODO ID:'', ''SCOPE:'', ''ARTIFACT REQUESTS:'', ''PASS CRITERIA:'', ''FAILURE HANDOFF:'',
         ''VIEWPORTS:'']
        ''tester_payload_todo-001'',
      append_event (ts 28) ''orchestrator'' ''tester'' ''delegation'' ''tester_payload''
        tester_payload_001,
      append_validation tester_response_001
        [''TODO ID:'', ''STATUS:'', ''VIEWPORTS:'', ''STEPS:'', ''ISSUES:'', ''RECOMMENDATION:'']
        ''tester_response_todo-001'',
      append_event (ts 40) ''tester'' ''orchestrator'' ''verification'' ''tester_response''
        tester_response_001,
      assign_todo ''todo-001'' ''complete'',
      assign_active_todo None,
      record_snapshot ts 41 ''dispatch'' ''Marked todo-001 complete and returning to queue.'',
      assign_active_todo (Some ''todo-002''),
      assign_todo ''todo-002'' ''in_progress'',
      record_snapshot ts 45 ''dispatch'' ''Dispatching todo-002 to coder.'',
      append_validation coder_payload_002
        [''TODO ID:'', ''OBJECTIVE:'', ''REQUIREMENTS:'', ''CONSTRAINTS:'', ''OUTPUT FORMAT:'',
         ''POST-CONDITIONS:'', ''```diff'']
        ''coder_payload_todo-002'',
      append_event (ts 47) ''orchestrator'' ''coder'' ''delegation'' ''coder_payload''
        coder_payload_002,
      append_validation coder_response_002
        [''TODO ID:'', ''STATUS:'', ''DIFF:'', ''```diff'', ''TESTS:'', ''SUMMARY:'', ''FOLLOW-UP:'']
        ''coder_response_todo-002'',
      append_event (ts 60) ''coder'' ''orchestrator'' ''completion'' ''coder_response''
        coder_response_002,
      assign_todo ''todo-002'' ''blocked'',
      record_snapshot ts 61 ''escalating'' ''Coder reported failure importing audit package.'',
      append_validation (stuck_payload needed_by)
        [''ISSUE:'', ''CONTEXT:'', ''DECISION OPTIONS:'', ''NEEDED BY:'', ''Option A'', ''Option B'',
         ''Option C'']
        ''stuck_payload_todo-002'',
      append_event (ts 63) ''orchestrator'' ''stuck'' ''escalation'' ''stuck_payload''
        (stuck_payload needed_by),
      append_validation stuck_response
        [''HUMAN DECISION:'', ''ACTION REQUIRED:'', ''FOLLOW-UP:'']
        ''stuck_response_todo-002'',
      append_event (ts 75) ''stuck'' ''orchestrator'' ''resolution'' ''stuck_response''
        stuck_response,
      assign_todo ''todo-002'' ''pending'',
      assign_active_todo None,
      record_snapshot ts 76 ''planning''
        ''Updated todo-002 with human guidance; ready to redispatch.'']"

definition run_simulation :: "(nat \<Rightarrow> string) \<Rightarrow> string \<Rightarrow> Simulation" where
  "run_simulation ts needed_by = fold (\<lambda>step s. step s) (simulation_steps ts needed_by) simulation_start"

text \<open>
  \<^verbatim>\<open>build_simulation\<close> returns the three lists as a trace; \<^verbatim>\<open>generated_at\<close> is
  read from the clock when the run is over.
\<close>

definition build_simulation :: "(nat \<Rightarrow> string) \<Rightarrow> string \<Rightarrow> string \<Rightarrow> NormalizedTrace" where
  "build_simulation ts needed_by now =
     (let s = run_simulation ts needed_by
      in \<lparr>session_id = ''demo-session-001'', generated_at = now, events = sim_events s,
          state_snapshots = sim_snapshots s, validations = sim_validations s\<rparr>)"

section \<open>Example inputs\<close>

text \<open>A text that holds the markers of a coder payload and those of a coder response.\<close>

definition both_markers :: string where
  "both_markers = ''OBJECTIVE: REQUIREMENTS: CONSTRAINTS: STATUS: DIFF: TESTS:''"

text \<open>
  Texts after the templates of the agents, shortened, and the event records of two runs:
  an item that is coded, verified and completed, and an item whose coder fails and that a
  human decision sends back to planning.
\<close>

definition brief_coder_payload :: string where
  "brief_coder_payload = ''TODO ID: todo-001\<newline>OBJECTIVE: Implement audit logger utility\<newline>REQUIREMENTS:\<newline>CONSTRAINTS:''"

definition brief_coder_response :: string where
  "brief_coder_response = ''TODO ID: todo-001\<newline>STATUS: success\<newline>DIFF:\<newline>TESTS:''"

definition brief_tester_payload :: string where
  "brief_tester_payload = ''TODO ID: todo-001\<newline>SCOPE:\<newline>ARTIFACT REQUESTS:\<newline>PASS CRITERIA:''"

definition brief_tester_response :: string where
  "brief_tester_response = ''TODO ID: todo-001\<newline>STATUS: pass\<newline>VIEWPORTS:\<newline>RECOMMENDATION:''"

definition brief_coder_failure :: string where
  "brief_coder_failure = ''TODO ID: todo-002\<newline>STATUS: failed\<newline>DIFF:\<newline>TESTS:''"

definition brief_coder_silence :: string where
  "brief_coder_silence = ''TODO ID: todo-002\<newline>DIFF:\<newline>TESTS:''"

definition brief_stuck_response :: string where
  "brief_stuck_response = ''HUMAN DECISION: Option A\<newline>ACTION REQUIRED:\<newline>TODO ID: todo-002''"

definition brief_stuck_payload :: string where
  "brief_stuck_payload = ''ISSUE: missing module\<newline>CONTEXT:\<newline>- Todo ID: todo-002\<newline>DECISION OPTIONS:\<newline>NEEDED BY: noon''"

definition brief_unpatterned :: string where
  "brief_unpatterned = ''TODO ID: task-7\<newline>STATUS: success\<newline>DIFF:\<newline>TESTS:''"

definition happy_path :: "string EventRecord list" where
  "happy_path =
     [\<lparr>sequence = 1, timestamp = ''2024-01-01T00:00:12+00:00'', sender = ''orchestrator'', recipient = ''coder'',
        role = ''delegation'', payload_type = ''coder_payload'', content = brief_coder_payload\<rparr>,
      \<lparr>sequence = 2, timestamp = ''2024-01-01T00:00:25+00:00'', sender = ''coder'', recipient = ''orchestrator'',
        role = ''completion'', payload_type = ''coder_response'', content = brief_coder_response\<rparr>,
      \<lparr>sequence = 3, timestamp = ''2024-01-01T00:00:28+00:00'', sender = ''orchestrator'', recipient = ''tester'',
        role = ''delegation'', payload_type = ''tester_payload'', content = brief_tester_payload\<rparr>,
      \<lparr>sequence = 4, timestamp = ''2024-01-01T00:00:40+00:00'', sender = ''tester'', recipient = ''orchestrator'',
        role = ''completion'', payload_type = ''tester_response'', content = brief_tester_response\<rparr>]"

definition failed_coder :: "string EventRecord" where
  "failed_coder =
     \<lparr>sequence = 1, timestamp = ''2024-01-01T00:01:00+00:00'', sender = ''coder'', recipient = ''orchestrator'',
        role = ''completion'', payload_type = ''coder_response'', content = brief_coder_failure\<rparr>"

definition silent_coder :: "string EventRecord" where
  "silent_coder =
     \<lparr>sequence = 1, timestamp = ''2024-01-01T00:01:00+00:00'', sender = ''coder'', recipient = ''orchestrator'',
        role = ''completion'', payload_type = ''coder_response'', content = brief_coder_silence\<rparr>"

definition human_decision :: "string EventRecord" where
  "human_decision =
     \<lparr>sequence = 2, timestamp = ''2024-01-01T00:01:15+00:00'', sender = ''stuck'', recipient = ''orchestrator'',
        role = ''completion'', payload_type = ''stuck_response'', content = brief_stuck_response\<rparr>"

text \<open>
  The same coder payload routed to the coder and to the tester, the keys of these events, and
  a trace of one event whose payload lacks three of the required sections.
\<close>

definition routed_to_coder :: "string EventRecord" where
  "routed_to_coder =
     \<lparr>sequence = 1, timestamp = ''2024-01-01T00:00:12+00:00'', sender = ''orchestrator'',
      recipient = ''coder'', role = ''delegation'', payload_type = ''coder_payload'',
      content = brief_coder_payload\<rparr>"

definition routed_to_tester :: "string EventRecord" where
  "routed_to_tester =
     \<lparr>sequence = 1, timestamp = ''2024-01-01T00:03:12+00:00'', sender = ''orchestrator'',
      recipient = ''tester'', role = ''delegation'', payload_type = ''coder_payload'',
      content = brief_coder_payload\<rparr>"

definition key_to_coder :: EventKey where
  "key_to_coder =
     \<lparr>key_payload_type = ''coder_payload'', todo_id = ''todo-001'',
      key_sender = ''orchestrator'', key_recipient = ''coder''\<rparr>"

definition key_to_tester :: EventKey where
  "key_to_tester =
     \<lparr>key_payload_type = ''coder_payload'', todo_id = ''todo-001'',
      key_sender = ''orchestrator'', key_recipient = ''tester''\<rparr>"

definition key_failed_coder :: EventKey where
  "key_failed_coder =
     \<lparr>key_payload_type = ''coder_response'', todo_id = ''todo-002'',
      key_sender = ''coder'', key_recipient = ''orchestrator''\<rparr>"

definition failing_trace :: NormalizedTrace where
  "failing_trace =
     \<lparr>session_id = ''live-session'', generated_at = ''2024-01-01T00:05:00+00:00'',
      events = [routed_to_coder],
      state_snapshots = build_state_snapshots [routed_to_coder],
      validations = make_validation brief_coder_payload ''coder_payload''\<rparr>"

text \<open>
  An escalation that names its item in a list entry, and a coder response whose item
  identifier does not have the form \<open>todo-\<close> and digits.
\<close>

definition stuck_dispatch :: "string EventRecord" where
  "stuck_dispatch =
     \<lparr>sequence = 3, timestamp = ''2024-01-01T00:01:03+00:00'', sender = ''orchestrator'',
      recipient = ''stuck'', role = ''delegation'', payload_type = ''stuck_payload'',
      content = brief_stuck_payload\<rparr>"

definition key_stuck_dispatch :: EventKey where
  "key_stuck_dispatch =
     \<lparr>key_payload_type = ''stuck_payload'', todo_id = ''unknown'',
      key_sender = ''orchestrator'', key_recipient = ''stuck''\<rparr>"

definition unpatterned :: "string EventRecord" where
  "unpatterned =
     \<lparr>sequence = 1, timestamp = ''2024-01-01T00:00:25+00:00'', sender = ''coder'',
      recipient = ''orchestrator'', role = ''completion'', payload_type = ''coder_response'',
      content = brief_unpatterned\<rparr>"

text \<open>
  Raw records: one whose top-level content is a number while its message holds a coder
  payload, one whose top-level content is a text part with the text \<^verbatim>\<open>null\<close> beside
  the same message, that message alone, and one whose top-level content is a part that is not
  text while its payload holds the text. The clock and the rendering of the trace builder
  are fixed for the examples.
\<close>

definition shadowed_record :: json where
  "shadowed_record =
     JObj [(''content'', JNum 42),
           (''message'', JObj [(''content'', JStr brief_coder_payload)])]"

definition null_text_record :: json where
  "null_text_record =
     JObj [(''content'', JObj [(''type'', JStr ''text''), (''text'', JNull)]),
           (''message'', JObj [(''content'', JStr brief_coder_payload)])]"

definition message_record :: json where
  "message_record = JObj [(''message'', JObj [(''content'', JStr brief_coder_payload)])]"

definition untyped_part_record :: json where
  "untyped_part_record =
     JObj [(''content'', JList [JObj [(''type'', JStr ''image''), (''text'', JStr ''unused'')]]),
           (''payload'', JObj [(''content'', JStr brief_coder_payload)])]"

definition fixed_clock :: "nat \<Rightarrow> string" where
  "fixed_clock n = ''2024-01-01T00:00:40+00:00''"

definition python_repr :: "json \<Rightarrow> string" where
  "python_repr v = ''<value>''"

text \<open>
  A simulated run that starts at midnight: the time stamps \<^verbatim>\<open>ts\<close> at the offsets up to an
  hour, the time \<^verbatim>\<open>needed_by\<close> five minutes after the start, and the time of the result.
\<close>

definition two_digits :: "nat \<Rightarrow> string" where
  "two_digits n = [''0123456789'' ! (n div 10 mod 10), ''0123456789'' ! (n mod 10)]"

definition midnight_ts :: "nat \<Rightarrow> string" where
  "midnight_ts offset =
     ''2024-01-01T00:'' @ two_digits (offset div 60) @ '':'' @ two_digits (offset mod 60) @ ''+00:00''"

definition midnight_needed_by :: string where
  "midnight_needed_by = ''2024-01-01T00:05:00+00:00''"

definition midnight_generated_at :: string where
  "midnight_generated_at = ''2024-01-01T00:01:16+00:00''"

definition midnight_run :: NormalizedTrace where
  "midnight_run = build_simulation midnight_ts midnight_needed_by midnight_generated_at"

text \<open>
  A \<^verbatim>\<open>datetime\<close> library for the examples, cut down to the first minute of the epoch
  and to one ISO text; it refuses every other number and every other text.
\<close>

definition small_datetime :: Datetime where
  "small_datetime =
     \<lparr>fromtimestamp =
        (\<lambda>x. if 0 \<le> x \<and> x < 60
             then Inr (''1970-01-01T00:00:'' @ two_digits (nat \<lfloor>x\<rfloor>) @ ''+00:00'')
             else Inl OverflowError),
      fromisoformat =
        (\<lambda>s. if s = ''2024-01-01T00:00:40'' then Some ''2024-01-01T00:00:40+00:00'' else None)\<rparr>"

text \<open>
  The log of a run: one raw record for each text of the simulated run, the text as its
  top-level content and nothing else.
\<close>

definition text_record :: "string \<Rightarrow> json" where
  "text_record t = JObj [(''content'', JStr t)]"

definition simulation_log :: "string \<Rightarrow> json list" where
  "simulation_log needed_by =
     map text_record
       [coder_payload_001, coder_response_001, tester_payload_001, tester_response_001,
        coder_payload_002, coder_response_002, stuck_payload needed_by, stuck_response]"

section \<open>Properties of the text functions\<close>

lemma startswith_prefix: "startswith t p \<longleftrightarrow> prefix p t"
  by (induction t p rule: startswith.induct) auto

lemma contains_sublist: "contains t p \<longleftrightarrow> sublist p t"
proof (induction t)
  case Nil
  then show ?case by simp
next
  case (Cons c cs)
  then show ?case
    by (cases p) (simp_all add: startswith_prefix sublist_Cons_right)
qed


text \<open>
  A text given as its lines: a marker that holds no line feed is in the text exactly when
  it is in one of the lines, and the ends of the text are the ends of its first and last
  line.
\<close>

lemma sublist_line_feed:
  assumes "m \<noteq> []" "c \<notin> set m"
  shows "sublist m (a @ c # b) \<longleftrightarrow> sublist m a \<or> sublist m b"
proof -
  have p: "\<not> prefix m (c # b)" using assms by (cases m) (auto simp: prefix_Cons)
  have s: "sublist m a" if "m = xs1 @ xs2" "suffix xs1 a" "prefix xs2 (c # b)" for xs1 xs2
  proof -
    have "xs2 = []" using that(1,3) assms(2) by (cases xs2) (auto simp: prefix_Cons)
    then show ?thesis using that(1,2) by (simp add: suffix_imp_sublist)
  qed
  show ?thesis
    using p s by (auto simp: sublist_append sublist_Cons_right)
qed

lemma contains_join:
  assumes "m \<noteq> []" "c \<notin> set m"
  shows "contains (join [c] ls) m \<longleftrightarrow> list_ex (\<lambda>l. contains l m) ls"
proof (induction "[c]" ls rule: join.induct)
  case 1
  then show ?case using assms by simp
next
  case (2 s)
  then show ?case by simp
next
  case (3 s t ss)
  then show ?case using sublist_line_feed[OF assms] by (simp add: contains_sublist)
qed

lemma contains_lines:
  assumes "m \<noteq> []" "c \<notin> set m"
  shows "contains (join [c] []) m = False"
    and "contains (join [c] (l # ls)) m = (if contains l m then True else contains (join [c] ls) m)"
  using assms by (simp_all add: contains_join del: join.simps)

lemma startswith_append: "length p \<le> length l \<Longrightarrow> startswith (l @ r) p = startswith l p"
  by (auto simp: startswith_prefix prefix_append prefix_length_le
      dest: prefix_length_le)

lemma startswith_lines:
  "length p \<le> length l \<Longrightarrow> startswith (join sep (l # ls)) p = startswith l p"
  by (cases ls) (simp_all add: startswith_append)

lemma hd_lines: "l \<noteq> [] \<Longrightarrow> hd (join sep (l # ls)) = hd l"
  by (cases ls) simp_all

lemma lines_not_empty: "l \<noteq> [] \<Longrightarrow> join sep (l # ls) \<noteq> []"
  by (cases ls) simp_all

lemma last_not_empty_lines: "ls \<noteq> [] \<Longrightarrow> last ls \<noteq> [] \<Longrightarrow> join sep ls \<noteq> []"
  by (induction sep ls rule: join.induct) (auto split: if_splits)

lemma last_lines: "ls \<noteq> [] \<Longrightarrow> last ls \<noteq> [] \<Longrightarrow> last (join sep ls) = last (last ls)"
proof (induction sep ls rule: join.induct)
  case (3 sep s t ss)
  have "join sep (t # ss) \<noteq> []"
    using 3(3) by (intro last_not_empty_lines) simp_all
  then show ?case using 3 by simp
qed simp_all

lemma rstrip_last: "s \<noteq> [] \<Longrightarrow> \<not> is_space (last s) \<Longrightarrow> rstrip s = s"
  by (cases s rule: rev_cases) (simp_all add: rstrip_def)

lemma strip_unchanged:
  "s \<noteq> [] \<Longrightarrow> \<not> is_space (hd s) \<Longrightarrow> \<not> is_space (last s) \<Longrightarrow> strip s = s"
  by (cases s) (simp_all add: strip_def lstrip_def rstrip_last)

section \<open>The character functions on the characters of the examples\<close>

lemma lower_char_examples:
  "map lower_char
     [CHR 0x0A, CHR '' '', CHR 0x22, CHR ''%'', CHR 0x27, CHR ''('', CHR '')'', CHR ''*'', CHR ''+'', CHR '','', CHR ''-'', CHR ''.'', CHR ''/'', CHR ''0'', CHR ''1'', CHR ''2'', CHR ''3'', CHR ''4'', CHR ''7'', CHR ''8'', CHR ''9'', CHR '':'', CHR '';'', CHR ''<'', CHR ''='', CHR ''>'', CHR ''@'', CHR ''A'', CHR ''B'', CHR ''C'', CHR ''D'', CHR ''E'', CHR ''F'', CHR ''H'', CHR ''I'', CHR ''J'', CHR ''L'', CHR ''M'', CHR ''N'', CHR ''O'', CHR ''P'', CHR ''Q'', CHR ''R'', CHR ''S'', CHR ''T'', CHR ''U'', CHR ''V'', CHR ''W'', CHR ''X'', CHR ''Y'', CHR ''Z'', CHR ''['', CHR '']'', CHR ''_'', CHR 0x60, CHR ''a'', CHR ''b'', CHR ''c'', CHR ''d'', CHR ''e'', CHR ''f'', CHR ''g'', CHR ''h'', CHR ''i'', CHR ''j'', CHR ''k'', CHR ''l'', CHR ''m'', CHR ''n'', CHR ''o'', CHR ''p'', CHR ''q'', CHR ''r'', CHR ''s'', CHR ''t'', CHR ''u'', CHR ''v'', CHR ''w'', CHR ''x'', CHR ''y'', CHR ''z'', CHR ''{'', CHR ''|'', CHR ''}''] =
     [CHR 0x0A, CHR '' '', CHR 0x22, CHR ''%'', CHR 0x27, CHR ''('', CHR '')'', CHR ''*'', CHR ''+'', CHR '','', CHR ''-'', CHR ''.'', CHR ''/'', CHR ''0'', CHR ''1'', CHR ''2'', CHR ''3'', CHR ''4'', CHR ''7'', CHR ''8'', CHR ''9'', CHR '':'', CHR '';'', CHR ''<'', CHR ''='', CHR ''>'', CHR ''@'', CHR ''a'', CHR ''b'', CHR ''c'', CHR ''d'', CHR ''e'', CHR ''f'', CHR ''h'', CHR ''i'', CHR ''j'', CHR ''l'', CHR ''m'', CHR ''n'', CHR ''o'', CHR ''p'', CHR ''q'', CHR ''r'', CHR ''s'', CHR ''t'', CHR ''u'', CHR ''v'', CHR ''w'', CHR ''x'', CHR ''y'', CHR ''z'', CHR ''['', CHR '']'', CHR ''_'', CHR 0x60, CHR ''a'', CHR ''b'', CHR ''c'', CHR ''d'', CHR ''e'', CHR ''f'', CHR ''g'', CHR ''h'', CHR ''i'', CHR ''j'', CHR ''k'', CHR ''l'', CHR ''m'', CHR ''n'', CHR ''o'', CHR ''p'', CHR ''q'', CHR ''r'', CHR ''s'', CHR ''t'', CHR ''u'', CHR ''v'', CHR ''w'', CHR ''x'', CHR ''y'', CHR ''z'', CHR ''{'', CHR ''|'', CHR ''}'']"
  by (simp add: lower_char_def ascii_upper_def ascii_lower_def latin_upper_def latin_lower_def)

lemma is_space_examples:
  "list_all is_space
     [CHR 0x0A, CHR '' '']"
  "list_all (\<lambda>c. \<not> is_space c)
     [CHR 0x22, CHR ''%'', CHR 0x27, CHR ''('', CHR '')'', CHR ''*'', CHR ''+'', CHR '','', CHR ''-'', CHR ''.'', CHR ''/'', CHR ''0'', CHR ''1'', CHR ''2'', CHR ''3'', CHR ''4'', CHR ''7'', CHR ''8'', CHR ''9'', CHR '':'', CHR '';'', CHR ''<'', CHR ''='', CHR ''>'', CHR ''@'', CHR ''A'', CHR ''B'', CHR ''C'', CHR ''D'', CHR ''E'', CHR ''F'', CHR ''H'', CHR ''I'', CHR ''J'', CHR ''L'', CHR ''M'', CHR ''N'', CHR ''O'', CHR ''P'', CHR ''Q'', CHR ''R'', CHR ''S'', CHR ''T'', CHR ''U'', CHR ''V'', CHR ''W'', CHR ''X'', CHR ''Y'', CHR ''Z'', CHR ''['', CHR '']'', CHR ''_'', CHR 0x60, CHR ''a'', CHR ''b'', CHR ''c'', CHR ''d'', CHR ''e'', CHR ''f'', CHR ''g'', CHR ''h'', CHR ''i'', CHR ''j'', CHR ''k'', CHR ''l'', CHR ''m'', CHR ''n'', CHR ''o'', CHR ''p'', CHR ''q'', CHR ''r'', CHR ''s'', CHR ''t'', CHR ''u'', CHR ''v'', CHR ''w'', CHR ''x'', CHR ''y'', CHR ''z'', CHR ''{'', CHR ''|'', CHR ''}'']"
  by (simp_all add: is_space_def)

lemma is_digit_examples:
  "list_all is_digit
     [CHR ''0'', CHR ''1'', CHR ''2'', CHR ''3'', CHR ''4'', CHR ''7'', CHR ''8'', CHR ''9'']"
  "list_all (\<lambda>c. \<not> is_digit c)
     [CHR 0x0A, CHR '' '', CHR 0x22, CHR ''%'', CHR 0x27, CHR ''('', CHR '')'', CHR ''*'', CHR ''+'', CHR '','', CHR ''-'', CHR ''.'', CHR ''/'', CHR '':'', CHR '';'', CHR ''<'', CHR ''='', CHR ''>'', CHR ''@'', CHR ''A'', CHR ''B'', CHR ''C'', CHR ''D'', CHR ''E'', CHR ''F'', CHR ''H'', CHR ''I'', CHR ''J'', CHR ''L'', CHR ''M'', CHR ''N'', CHR ''O'', CHR ''P'', CHR ''Q'', CHR ''R'', CHR ''S'', CHR ''T'', CHR ''U'', CHR ''V'', CHR ''W'', CHR ''X'', CHR ''Y'', CHR ''Z'', CHR ''['', CHR '']'', CHR ''_'', CHR 0x60, CHR ''a'', CHR ''b'', CHR ''c'', CHR ''d'', CHR ''e'', CHR ''f'', CHR ''g'', CHR ''h'', CHR ''i'', CHR ''j'', CHR ''k'', CHR ''l'', CHR ''m'', CHR ''n'', CHR ''o'', CHR ''p'', CHR ''q'', CHR ''r'', CHR ''s'', CHR ''t'', CHR ''u'', CHR ''v'', CHR ''w'', CHR ''x'', CHR ''y'', CHR ''z'', CHR ''{'', CHR ''|'', CHR ''}'']"
  by (simp_all add: is_digit_def)

lemma is_word_examples:
  "list_all is_word
     [CHR ''0'', CHR ''1'', CHR ''2'', CHR ''3'', CHR ''4'', CHR ''7'', CHR ''8'', CHR ''9'', CHR ''A'', CHR ''B'', CHR ''C'', CHR ''D'', CHR ''E'', CHR ''F'', CHR ''H'', CHR ''I'', CHR ''J'', CHR ''L'', CHR ''M'', CHR ''N'', CHR ''O'', CHR ''P'', CHR ''Q'', CHR ''R'', CHR ''S'', CHR ''T'', CHR ''U'', CHR ''V'', CHR ''W'', CHR ''X'', CHR ''Y'', CHR ''Z'', CHR ''_'', CHR ''a'', CHR ''b'', CHR ''c'', CHR ''d'', CHR ''e'', CHR ''f'', CHR ''g'', CHR ''h'', CHR ''i'', CHR ''j'', CHR ''k'', CHR ''l'', CHR ''m'', CHR ''n'', CHR ''o'', CHR ''p'', CHR ''q'', CHR ''r'', CHR ''s'', CHR ''t'', CHR ''u'', CHR ''v'', CHR ''w'', CHR ''x'', CHR ''y'', CHR ''z'']"
  "list_all (\<lambda>c. \<not> is_word c)
     [CHR 0x0A, CHR '' '', CHR 0x22, CHR ''%'', CHR 0x27, CHR ''('', CHR '')'', CHR ''*'', CHR ''+'', CHR '','', CHR ''-'', CHR ''.'', CHR ''/'', CHR '':'', CHR '';'', CHR ''<'', CHR ''='', CHR ''>'', CHR ''@'', CHR ''['', CHR '']'', CHR 0x60, CHR ''{'', CHR ''|'', CHR ''}'']"
  by (simp_all add: is_word_def is_digit_def ascii_upper_def ascii_lower_def latin_upper_def latin_lower_def latin_other_alnum_def)

lemma is_linebreak_examples:
  "list_all is_linebreak
     [CHR 0x0A]"
  "list_all (\<lambda>c. \<not> is_linebreak c)
     [CHR '' '', CHR 0x22, CHR ''%'', CHR 0x27, CHR ''('', CHR '')'', CHR ''*'', CHR ''+'', CHR '','', CHR ''-'', CHR ''.'', CHR ''/'', CHR ''0'', CHR ''1'', CHR ''2'', CHR ''3'', CHR ''4'', CHR ''7'', CHR ''8'', CHR ''9'', CHR '':'', CHR '';'', CHR ''<'', CHR ''='', CHR ''>'', CHR ''@'', CHR ''A'', CHR ''B'', CHR ''C'', CHR ''D'', CHR ''E'', CHR ''F'', CHR ''H'', CHR ''I'', CHR ''J'', CHR ''L'', CHR ''M'', CHR ''N'', CHR ''O'', CHR ''P'', CHR ''Q'', CHR ''R'', CHR ''S'', CHR ''T'', CHR ''U'', CHR ''V'', CHR ''W'', CHR ''X'', CHR ''Y'', CHR ''Z'', CHR ''['', CHR '']'', CHR ''_'', CHR 0x60, CHR ''a'', CHR ''b'', CHR ''c'', CHR ''d'', CHR ''e'', CHR ''f'', CHR ''g'', CHR ''h'', CHR ''i'', CHR ''j'', CHR ''k'', CHR ''l'', CHR ''m'', CHR ''n'', CHR ''o'', CHR ''p'', CHR ''q'', CHR ''r'', CHR ''s'', CHR ''t'', CHR ''u'', CHR ''v'', CHR ''w'', CHR ''x'', CHR ''y'', CHR ''z'', CHR ''{'', CHR ''|'', CHR ''}'']"
  by (simp_all add: is_linebreak_def)

lemmas char_values =
  lower_char_examples[simplified] is_space_examples[simplified] is_digit_examples[simplified]
  is_word_examples[simplified] is_linebreak_examples[simplified]

section \<open>The patterns on the examples\<close>

lemmas reconstructor_defs =
  build_state_snapshots_def bootstrap_def process_event_def transition_def
  append_snapshot_def assign_def initial_def

lemmas regex_defs = todo_id_match_def status_token_def status_match_def lower_def

lemma happy_path_todo_ids:
  "TODO_ID_PATTERN_search brief_coder_payload = Some ''todo-001''"
  "TODO_ID_PATTERN_search brief_coder_response = Some ''todo-001''"
  "TODO_ID_PATTERN_search brief_tester_payload = Some ''todo-001''"
  "TODO_ID_PATTERN_search brief_tester_response = Some ''todo-001''"
  by (simp_all add: brief_coder_payload_def brief_coder_response_def brief_tester_payload_def
      brief_tester_response_def regex_defs char_values)

lemma happy_path_status_tokens:
  "status_token brief_coder_response = ''success''"
  "status_token brief_tester_response = ''pass''"
  by (simp_all add: brief_coder_response_def brief_tester_response_def regex_defs char_values)

lemma failure_path_todo_ids:
  "TODO_ID_PATTERN_search brief_coder_failure = Some ''todo-002''"
  "TODO_ID_PATTERN_search brief_coder_silence = Some ''todo-002''"
  "TODO_ID_PATTERN_search brief_stuck_response = Some ''todo-002''"
  by (simp_all add: brief_coder_failure_def brief_coder_silence_def brief_stuck_response_def
      regex_defs char_values)

lemma failure_path_status_tokens:
  "status_token brief_coder_failure = ''failed''"
  "status_search brief_coder_silence = None"
  by (simp_all add: brief_coder_failure_def brief_coder_silence_def regex_defs char_values)

lemmas key_defs =
  extract_event_key_def splitlines_def after_colon_def strip_def lstrip_def rstrip_def lower_def

lemma example_keys:
  "extract_event_key routed_to_coder = Inr key_to_coder"
  "extract_event_key routed_to_tester = Inr key_to_tester"
  "extract_event_key failed_coder = Inr key_failed_coder"
  "extract_event_key stuck_dispatch = Inr key_stuck_dispatch"
  by (simp_all add: routed_to_coder_def routed_to_tester_def failed_coder_def stuck_dispatch_def
      key_to_coder_def key_to_tester_def key_failed_coder_def key_stuck_dispatch_def
      brief_coder_payload_def brief_coder_failure_def brief_stuck_payload_def
      key_defs char_values)

lemma failing_validation:
  "make_validation brief_coder_payload ''coder_payload'' =
     [\<lparr>name = ''coder_payload_todo-001'', status = ''fail'',
       missing_sections = [''OUTPUT FORMAT:'', ''POST-CONDITIONS:'', ''```diff'']\<rparr>]"
  by (simp add: make_validation_def VALIDATION_RULES_def happy_path_todo_ids require_sections_def)
    (simp add: brief_coder_payload_def)

lemma example_lines:
  "splitlines (content stuck_dispatch) =
     [''ISSUE: missing module'', ''CONTEXT:'', ''- Todo ID: todo-002'', ''DECISION OPTIONS:'',
      ''NEEDED BY: noon'']"
  "splitlines (content unpatterned) =
     [] @ ''TODO ID: task-7'' # [''STATUS: success'', ''DIFF:'', ''TESTS:'']"
  by (simp_all add: stuck_dispatch_def unpatterned_def brief_stuck_payload_def brief_unpatterned_def
      splitlines_def char_values)

lemma example_todo_id_lines:
  "list_all (\<lambda>l. \<not> is_todo_id_line l)
     [''ISSUE: missing module'', ''CONTEXT:'', ''- Todo ID: todo-002'', ''DECISION OPTIONS:'',
      ''NEEDED BY: noon'']"
  "is_todo_id_line ''TODO ID: task-7''"
  "strip (drop 8 (lstrip ''TODO ID: task-7'')) = ''task-7''"
  by (simp_all add: is_todo_id_line_def strip_def lstrip_def rstrip_def lower_def char_values)

lemma example_pattern_results:
  "TODO_ID_PATTERN_search (content stuck_dispatch) = Some ''todo-002''"
  "TODO_ID_PATTERN_search (content unpatterned) = None"
  by (simp_all add: stuck_dispatch_def unpatterned_def brief_stuck_payload_def brief_unpatterned_def
      regex_defs char_values)

section \<open>The simulated run, evaluated\<close>

lemmas simulation_defs =
  build_simulation_def run_simulation_def simulation_steps_def simulation_start_def
  record_snapshot_def assign_todo_def assign_active_todo_def append_validation_def
  append_event_def

lemma simulation_events:
  "events (build_simulation ts needed_by now) =
     [\<lparr>sequence = 1, timestamp = ts 12, sender = ''orchestrator'', recipient = ''coder'',
       role = ''delegation'', payload_type = ''coder_payload'', content = coder_payload_001\<rparr>,
      \<lparr>sequence = 2, timestamp = ts 25, sender = ''coder'', recipient = ''orchestrator'',
       role = ''completion'', payload_type = ''coder_response'', content = coder_response_001\<rparr>,
      \<lparr>sequence = 3, timestamp = ts 28, sender = ''orchestrator'', recipient = ''tester'',
       role = ''delegation'', payload_type = ''tester_payload'', content = tester_payload_001\<rparr>,
      \<lparr>sequence = 4, timestamp = ts 40, sender = ''tester'', recipient = ''orchestrator'',
       role = ''verification'', payload_type = ''tester_response'', content = tester_response_001\<rparr>,
      \<lparr>sequence = 5, timestamp = ts 47, sender = ''orchestrator'', recipient = ''coder'',
       role = ''delegation'', payload_type = ''coder_payload'', content = coder_payload_002\<rparr>,
      \<lparr>sequence = 6, timestamp = ts 60, sender = ''coder'', recipient = ''orchestrator'',
       role = ''completion'', payload_type = ''coder_response'', content = coder_response_002\<rparr>,
      \<lparr>sequence = 7, timestamp = ts 63, sender = ''orchestrator'', recipient = ''stuck'',
       role = ''escalation'', payload_type = ''stuck_payload'', content = stuck_payload needed_by\<rparr>,
      \<lparr>sequence = 8, timestamp = ts 75, sender = ''stuck'', recipient = ''orchestrator'',
       role = ''resolution'', payload_type = ''stuck_response'', content = stuck_response\<rparr>]"
  by (simp add: simulation_defs)

lemma simulation_roles:
  "map (\<lambda>e. (payload_type e, role e)) (events (build_simulation ts needed_by now)) =
     [(''coder_payload'', ''delegation''), (''coder_response'', ''completion''),
      (''tester_payload'', ''delegation''), (''tester_response'', ''verification''),
      (''coder_payload'', ''delegation''), (''coder_response'', ''completion''),
      (''stuck_payload'', ''escalation''), (''stuck_response'', ''resolution'')]"
  by (simp add: simulation_events)

lemma simulation_todo_ids:
  "TODO_ID_PATTERN_search coder_payload_001 = Some ''todo-001''"
  "TODO_ID_PATTERN_search coder_response_001 = Some ''todo-001''"
  "TODO_ID_PATTERN_search tester_payload_001 = Some ''todo-001''"
  "TODO_ID_PATTERN_search tester_response_001 = Some ''todo-001''"
  "TODO_ID_PATTERN_search coder_payload_002 = Some ''todo-002''"
  "TODO_ID_PATTERN_search coder_response_002 = Some ''todo-002''"
  by (simp_all add: coder_payload_001_def coder_response_001_def tester_payload_001_def
      tester_response_001_def coder_payload_002_def coder_response_002_def regex_defs char_values)

text \<open>
  The stuck payload names its item in the line \<open>- Todo ID: todo-002\<close>, which the pattern
  finds; the stuck response of the simulation names no item.
\<close>

lemma simulation_stuck_todo_ids:
  "TODO_ID_PATTERN_search (stuck_payload needed_by) = Some ''todo-002''"
  "TODO_ID_PATTERN_search stuck_response = None"
  by (simp_all add: stuck_payload_def stuck_response_def regex_defs char_values)

lemma simulation_status_tokens:
  "status_token coder_response_001 = ''success''"
  "status_token tester_response_001 = ''pass''"
  "status_token coder_response_002 = ''failed''"
  by (simp_all add: coder_response_001_def tester_response_001_def coder_response_002_def
      regex_defs char_values)

lemma simulation_snapshots:
  "map (\<lambda>s. (phase s, active_todo s, todo_statuses s ''todo-001''))
       (state_snapshots (build_simulation ts needed_by now)) =
     [(''bootstrap'', None, Some ''pending''),
      (''planning'', None, Some ''pending''),
      (''dispatch'', Some ''todo-001'', Some ''in_progress''),
      (''verifying'', Some ''todo-001'', Some ''verifying''),
      (''dispatch'', None, Some ''complete''),
      (''dispatch'', Some ''todo-002'', Some ''complete''),
      (''escalating'', Some ''todo-002'', Some ''complete''),
      (''planning'', None, Some ''complete'')]"
  by (simp add: simulation_defs)

lemma simulation_rebuilt:
  "map (\<lambda>s. (phase s, active_todo s, todo_statuses s ''todo-001''))
       (build_state_snapshots (events (build_simulation ts needed_by now))) =
     [(''bootstrap'', None, None),
      (''dispatch'', Some ''todo-001'', Some ''in_progress''),
      (''verifying'', Some ''todo-001'', Some ''verifying''),
      (''verifying'', Some ''todo-001'', Some ''verifying''),
      (''dispatch'', Some ''todo-001'', Some ''complete''),
      (''dispatch'', Some ''todo-002'', Some ''complete''),
      (''escalating'', Some ''todo-002'', Some ''complete''),
      (''escalating'', Some ''todo-002'', Some ''complete'')]"
  by (simp add: simulation_events reconstructor_defs simulation_todo_ids simulation_status_tokens
      simulation_stuck_todo_ids)

section \<open>The texts of the simulated run as a log\<close>

text \<open>
  A raw record that holds a text as its top-level content and nothing else: the flattener
  strips the text, the actor resolver finds no name, and the time stamp is the reading of
  the clock.
\<close>

lemma endswith_payload_kinds:
  "endswith ''coder_payload'' ''payload''" "endswith ''tester_payload'' ''payload''"
  "endswith ''stuck_payload'' ''payload''" "\<not> endswith ''coder_response'' ''payload''"
  "\<not> endswith ''tester_response'' ''payload''" "\<not> endswith ''stuck_response'' ''payload''"
  by (simp_all add: endswith_def)

lemma flatten_text_record: "flatten_text (text_record t) = Inr (strip t)"
  by (simp add: text_record_def flatten_text_def content_candidates_def ensure_list_def)

lemma guess_actor_text_record:
  "guess_actor render (text_record t) = Inr (JStr ''unknown'', JStr ''unknown'')"
  by (simp add: text_record_def guess_actor_def dict_get_def py_or_def)

lemma parse_timestamp_text_record: "parse_timestamp dt now (text_record t) = Inr now"
  by (simp add: text_record_def parse_timestamp_def dict_get_def)

lemmas simulation_texts =
  coder_payload_001_def coder_response_001_def tester_payload_001_def tester_response_001_def
  coder_payload_002_def coder_response_002_def stuck_payload_def stuck_response_def

lemma simulation_texts_stripped:
  "strip coder_payload_001 = coder_payload_001"
  "strip coder_response_001 = coder_response_001"
  "strip tester_payload_001 = tester_payload_001"
  "strip tester_response_001 = tester_response_001"
  "strip coder_payload_002 = coder_payload_002"
  "strip coder_response_002 = coder_response_002"
  "strip (stuck_payload midnight_needed_by) = stuck_payload midnight_needed_by"
  "strip stuck_response = stuck_response"
  by (rule strip_unchanged;
      simp add: simulation_texts midnight_needed_by_def hd_lines last_lines lines_not_empty
        char_values del: join.simps)+

lemma simulation_texts_not_empty:
  "coder_payload_001 \<noteq> []" "coder_response_001 \<noteq> []" "tester_payload_001 \<noteq> []"
  "tester_response_001 \<noteq> []" "coder_payload_002 \<noteq> []" "coder_response_002 \<noteq> []"
  "stuck_payload midnight_needed_by \<noteq> []" "stuck_response \<noteq> []"
  by (simp_all add: simulation_texts lines_not_empty del: join.simps)

lemmas classifier_defs =
  classify_event_def CLASSIFIERS_def classifier_orchestrator_payload_def
  classifier_agent_response_def

lemma classify_coder_payload_001: "classify_event coder_payload_001 = Some (''coder_payload'', (''orchestrator'', ''coder''))"
  by (simp add: coder_payload_001_def classifier_defs contains_lines startswith_lines
      del: join.simps)
lemma classify_coder_response_001: "classify_event coder_response_001 = Some (''coder_response'', (''coder'', ''orchestrator''))"
  by (simp add: coder_response_001_def classifier_defs contains_lines startswith_lines
      del: join.simps)
lemma classify_tester_payload_001: "classify_event tester_payload_001 = Some (''tester_payload'', (''orchestrator'', ''tester''))"
  by (simp add: tester_payload_001_def classifier_defs contains_lines startswith_lines
      del: join.simps)
lemma classify_tester_response_001: "classify_event tester_response_001 = Some (''tester_response'', (''tester'', ''orchestrator''))"
  by (simp add: tester_response_001_def classifier_defs contains_lines startswith_lines
      del: join.simps)
lemma classify_coder_payload_002: "classify_event coder_payload_002 = Some (''coder_payload'', (''orchestrator'', ''coder''))"
  by (simp add: coder_payload_002_def classifier_defs contains_lines startswith_lines
      del: join.simps)
lemma classify_coder_response_002: "classify_event coder_response_002 = Some (''coder_response'', (''coder'', ''orchestrator''))"
  by (simp add: coder_response_002_def classifier_defs contains_lines startswith_lines
      del: join.simps)
lemma classify_stuck_payload: "classify_event (stuck_payload midnight_needed_by) = Some (''stuck_payload'', (''orchestrator'', ''stuck''))"
  by (simp add: stuck_payload_def midnight_needed_by_def classifier_defs contains_lines startswith_lines
      del: join.simps)
lemma classify_stuck_response: "classify_event stuck_response = Some (''stuck_response'', (''stuck'', ''orchestrator''))"
  by (simp add: stuck_response_def classifier_defs contains_lines startswith_lines
      del: join.simps)

lemmas simulation_classified =
  classify_coder_payload_001 classify_coder_response_001 classify_tester_payload_001
  classify_tester_response_001 classify_coder_payload_002 classify_coder_response_002
  classify_stuck_payload classify_stuck_response

text \<open>
  The trace builder on the log of the simulated run: eight records, numbered in order, each
  with the default direction of its kind, and one validation for each.
\<close>

lemma simulation_log_run:
  "extract_events dt clock render (simulation_log midnight_needed_by) =
     Inr ([\<lparr>sequence = 1, timestamp = clock 1, sender = JStr ''orchestrator'',
             recipient = JStr ''coder'', role = ''delegation'', payload_type = ''coder_payload'',
             content = coder_payload_001\<rparr>,
           \<lparr>sequence = 2, timestamp = clock 2, sender = JStr ''coder'',
             recipient = JStr ''orchestrator'', role = ''completion'',
             payload_type = ''coder_response'', content = coder_response_001\<rparr>,
           \<lparr>sequence = 3, timestamp = clock 3, sender = JStr ''orchestrator'',
             recipient = JStr ''tester'', role = ''delegation'', payload_type = ''tester_payload'',
             content = tester_payload_001\<rparr>,
           \<lparr>sequence = 4, timestamp = clock 4, sender = JStr ''tester'',
             recipient = JStr ''orchestrator'', role = ''completion'',
             payload_type = ''tester_response'', content = tester_response_001\<rparr>,
           \<lparr>sequence = 5, timestamp = clock 5, sender = JStr ''orchestrator'',
             recipient = JStr ''coder'', role = ''delegation'', payload_type = ''coder_payload'',
             content = coder_payload_002\<rparr>,
           \<lparr>sequence = 6, timestamp = clock 6, sender = JStr ''coder'',
             recipient = JStr ''orchestrator'', role = ''completion'',
             payload_type = ''coder_response'', content = coder_response_002\<rparr>,
           \<lparr>sequence = 7, timestamp = clock 7, sender = JStr ''orchestrator'',
             recipient = JStr ''stuck'', role = ''delegation'', payload_type = ''stuck_payload'',
             content = stuck_payload midnight_needed_by\<rparr>,
           \<lparr>sequence = 8, timestamp = clock 8, sender = JStr ''stuck'',
             recipient = JStr ''orchestrator'', role = ''completion'',
             payload_type = ''stuck_response'', content = stuck_response\<rparr>],
          make_validation coder_payload_001 ''coder_payload''
          @ make_validation coder_response_001 ''coder_response''
          @ make_validation tester_payload_001 ''tester_payload''
          @ make_validation tester_response_001 ''tester_response''
          @ make_validation coder_payload_002 ''coder_payload''
          @ make_validation coder_response_002 ''coder_response''
          @ make_validation (stuck_payload midnight_needed_by) ''stuck_payload''
          @ make_validation stuck_response ''stuck_response'')"
  by (simp add: extract_events_def simulation_log_def flatten_text_record
      simulation_texts_stripped simulation_texts_not_empty simulation_classified
      guess_actor_text_record parse_timestamp_text_record make_event_def
      endswith_payload_kinds)
    (simp add: eval_nat_numeral)

text \<open>
  A numeric time stamp that the library refuses ends the run of the trace builder: the
  exception of \<^verbatim>\<open>fromtimestamp\<close> is not caught.
\<close>

lemma parse_timestamp_raises:
  "fromtimestamp dt x = Inl err \<Longrightarrow>
     parse_timestamp dt now (JObj ((''timestamp'', JNum x) # kvs)) = Inl err"
  by (simp add: parse_timestamp_def dict_get_def)

lemma extract_events_timestamp_raises:
  assumes "fromtimestamp dt x = Inl err"
  shows "extract_events dt clock render
           [JObj [(''timestamp'', JNum x), (''content'', JStr stuck_response)]] = Inl err"
proof -
  have "flatten_text (JObj [(''timestamp'', JNum x), (''content'', JStr stuck_response)])
      = Inr stuck_response"
    by (simp add: flatten_text_def content_candidates_def ensure_list_def
        simulation_texts_stripped)
  moreover have "\<exists>g. guess_actor render
      (JObj [(''timestamp'', JNum x), (''content'', JStr stuck_response)]) = Inr g"
    by (simp add: guess_actor_def Let_def)
  ultimately show ?thesis
    using parse_timestamp_raises[OF assms, of "clock 1" "[(''content'', JStr stuck_response)]"]
    by (auto simp: extract_events_def simulation_texts_not_empty simulation_classified)
qed

section \<open>The reconstructor accumulates, and its snapshots do not change\<close>

lemma snapshots_process_event:
  "snapshots (process_event e st) =
     snapshots st @
       (case transition e of
          None \<Rightarrow> []
        | Some tr \<Rightarrow>
            [\<lparr>snap_timestamp = timestamp e, phase = to_phase tr,
              active_todo = (case set_active_todo tr of Some t \<Rightarrow> Some t | None \<Rightarrow> cur_active_todo st),
              todo_statuses = (case set_status tr of
                                 Some (k, v) \<Rightarrow> (todo_status st)(k \<mapsto> v)
                               | None \<Rightarrow> todo_status st),
              snap_note = with_note tr\<rparr>])"
  by (cases "transition e") (simp_all add: process_event_def append_snapshot_def assign_def)

lemma prefix_snapshots_process_event: "prefix (snapshots st) (snapshots (process_event e st))"
  by (simp add: snapshots_process_event)

lemma prefix_snapshots_fold: "prefix (snapshots st) (snapshots (fold process_event es st))"
proof (induction es arbitrary: st)
  case Nil
  then show ?case by simp
next
  case (Cons e es)
  have "prefix (snapshots st) (snapshots (process_event e st))"
    by (rule prefix_snapshots_process_event)
  also have "prefix \<dots> (snapshots (fold process_event es (process_event e st)))"
    by (rule Cons.IH)
  finally show ?case by simp
qed

lemma bootstrap_append: "es \<noteq> [] \<Longrightarrow> bootstrap (es @ later) = bootstrap es"
  by (cases es) (simp_all add: bootstrap_def)

lemma prefix_build_state_snapshots:
  "prefix (build_state_snapshots es) (build_state_snapshots (es @ later))"
proof (cases es)
  case Nil
  then show ?thesis by (simp add: build_state_snapshots_def bootstrap_def initial_def)
next
  case (Cons e es')
  then have "bootstrap (es @ later) = bootstrap es" by (simp add: bootstrap_def)
  then show ?thesis
    by (simp add: build_state_snapshots_def prefix_snapshots_fold)
qed

lemma keys_grow_initial: "keys_grow initial"
  by (simp add: keys_grow_def initial_def)

lemma keys_grow_append_snapshot: "keys_grow st \<Longrightarrow> keys_grow (append_snapshot nt stamp st)"
  unfolding keys_grow_def append_snapshot_def
  by (auto simp: nth_append less_Suc_eq dest: nth_mem)

lemma dom_assign: "dom (todo_status st) \<subseteq> dom (todo_status (assign tr st))"
  by (auto simp: assign_def split: option.splits)

lemma snapshots_assign: "snapshots (assign tr st) = snapshots st"
  by (simp add: assign_def)

lemma keys_grow_assign: "keys_grow st \<Longrightarrow> keys_grow (assign tr st)"
  unfolding keys_grow_def snapshots_assign
  using dom_assign[of st tr] by blast

lemma keys_grow_process_event: "keys_grow st \<Longrightarrow> keys_grow (process_event e st)"
  by (simp add: process_event_def keys_grow_append_snapshot keys_grow_assign split: option.splits)

lemma keys_grow_fold: "keys_grow st \<Longrightarrow> keys_grow (fold process_event es st)"
  by (induction es arbitrary: st) (simp_all add: keys_grow_process_event)

lemma keys_grow_bootstrap: "keys_grow (bootstrap es)"
  by (cases es) (simp_all add: bootstrap_def keys_grow_initial keys_grow_append_snapshot)

lemma keys_grow_build:
  "i < j \<Longrightarrow> j < length (build_state_snapshots es) \<Longrightarrow>
     dom (todo_statuses (build_state_snapshots es ! i)) \<subseteq> dom (todo_statuses (build_state_snapshots es ! j))"
  using keys_grow_fold[OF keys_grow_bootstrap, of es es]
  unfolding keys_grow_def build_state_snapshots_def by blast

lemma store_rel_initial: "store_rel store_initial initial"
  by (simp add: store_rel_def store_initial_def initial_def)

lemma store_rel_append:
  assumes "store_rel s st"
  shows "store_rel (store_append_snapshot nt stamp s) (append_snapshot nt stamp st)"
proof -
  have old: "map (read_snapshot (store_append_snapshot nt stamp s)) (var_snapshots s)
             = map (read_snapshot s) (var_snapshots s)"
    using assms
    by (intro map_cong refl) (auto simp: store_rel_def read_snapshot_def store_append_snapshot_def)
  show ?thesis
    using assms old
    unfolding store_rel_def
    by (auto simp: store_append_snapshot_def append_snapshot_def read_snapshot_def)
qed

lemma store_rel_assign:
  assumes "store_rel s st"
  shows "store_rel (store_assign tr s) (assign tr st)"
proof -
  have old: "map (read_snapshot (store_assign tr s)) (var_snapshots s)
             = map (read_snapshot s) (var_snapshots s)"
    using assms
    by (intro map_cong refl)
      (auto simp: store_rel_def read_snapshot_def store_assign_def split: option.splits)
  show ?thesis
    using assms old
    unfolding store_rel_def
    by (auto simp: store_assign_def assign_def split: option.splits)
qed

lemma store_rel_process_event:
  "store_rel s st \<Longrightarrow> store_rel (store_process_event e s) (process_event e st)"
  by (simp add: store_process_event_def process_event_def store_rel_append store_rel_assign
      split: option.splits)

lemma store_rel_fold:
  "store_rel s st \<Longrightarrow> store_rel (fold store_process_event es s) (fold process_event es st)"
  by (induction es arbitrary: s st) (simp_all add: store_rel_process_event)

lemma store_rel_bootstrap: "store_rel (store_bootstrap es) (bootstrap es)"
  by (cases es) (simp_all add: store_bootstrap_def bootstrap_def store_rel_initial store_rel_append)

lemma store_rel_run: "store_rel (store_run es) (fold process_event es (bootstrap es))"
  unfolding store_run_def by (rule store_rel_fold[OF store_rel_bootstrap])

lemma store_build_eq: "store_build_state_snapshots es = build_state_snapshots es"
  using store_rel_run[of es]
  by (simp add: store_build_state_snapshots_def build_state_snapshots_def store_rel_def Let_def)

lemma keeps_refl: "keeps s s"
  by (simp add: keeps_def)

lemma keeps_trans: "keeps s s' \<Longrightarrow> keeps s' s'' \<Longrightarrow> keeps s s''"
  unfolding keeps_def by (auto dest: prefix_order.trans)

lemma keeps_process_event: "keeps s (store_process_event e s)"
  by (auto simp: keeps_def store_process_event_def store_append_snapshot_def store_assign_def
      split: option.splits)

lemma keeps_fold: "keeps s (fold store_process_event es s)"
proof (induction es arbitrary: s)
  case Nil
  then show ?case by (simp add: keeps_refl)
next
  case (Cons e es)
  show ?case
    using keeps_trans[OF keeps_process_event Cons.IH] by simp
qed

lemma store_bootstrap_append: "es \<noteq> [] \<Longrightarrow> store_bootstrap (es @ later) = store_bootstrap es"
  by (cases es) (simp_all add: store_bootstrap_def)

lemma keeps_run: "keeps (store_run es) (store_run (es @ later))"
proof (cases es)
  case Nil
  have "keeps store_initial (store_run later)"
    unfolding store_run_def
  proof (rule keeps_trans[OF _ keeps_fold])
    show "keeps store_initial (store_bootstrap later)"
      by (cases later)
        (auto simp: keeps_def store_bootstrap_def store_initial_def store_append_snapshot_def)
  qed
  with Nil show ?thesis by (simp add: store_run_def store_bootstrap_def)
next
  case (Cons e es')
  then have "store_bootstrap (es @ later) = store_bootstrap es"
    by (simp add: store_bootstrap_def)
  then show ?thesis
    by (simp add: store_run_def keeps_fold)
qed

text \<open>
  Claim C5. In the list that one run of \<^const>\<open>build_state_snapshots\<close> returns, an item
  identifier that is a key of the statuses of snapshot \<open>i\<close> is a key of those of every later
  snapshot \<open>j\<close>. In the store model the function returns the same snapshots; each
  snapshot holds a dict of its own, at an address that is not the accumulator's and that no
  other snapshot holds; and processing further events leaves that dict as it was when the
  snapshot was appended.
\<close>

theorem snapshot_keys_persist_and_frozen:
  "(\<forall>i j. i < j \<and> j < length (build_state_snapshots es) \<longrightarrow>
      dom (todo_statuses (build_state_snapshots es ! i))
        \<subseteq> dom (todo_statuses (build_state_snapshots es ! j)))
   \<and> store_build_state_snapshots es = build_state_snapshots es
   \<and> prefix (var_snapshots (store_run es)) (var_snapshots (store_run (es @ later)))
   \<and> (\<forall>obj \<in> set (var_snapshots (store_run es)).
        obj_todo_statuses obj \<noteq> 0
        \<and> heap (store_run (es @ later)) (obj_todo_statuses obj)
            = heap (store_run es) (obj_todo_statuses obj))
   \<and> distinct (map obj_todo_statuses (var_snapshots (store_run es)))
   \<and> prefix (build_state_snapshots es) (build_state_snapshots (es @ later))"
proof (intro conjI allI impI ballI)
  fix i j
  assume "i < j \<and> j < length (build_state_snapshots es)"
  then show "dom (todo_statuses (build_state_snapshots es ! i))
        \<subseteq> dom (todo_statuses (build_state_snapshots es ! j))"
    using keys_grow_build by blast
next
  show "store_build_state_snapshots es = build_state_snapshots es" by (rule store_build_eq)
next
  show "prefix (var_snapshots (store_run es)) (var_snapshots (store_run (es @ later)))"
    using keeps_run[of es later] by (simp add: keeps_def)
next
  fix obj
  assume obj: "obj \<in> set (var_snapshots (store_run es))"
  with store_rel_run[of es]
  have range: "0 < obj_todo_statuses obj \<and> obj_todo_statuses obj < free (store_run es)"
    by (simp add: store_rel_def)
  then show "obj_todo_statuses obj \<noteq> 0" by simp
  from range keeps_run[of es later]
  show "heap (store_run (es @ later)) (obj_todo_statuses obj)
            = heap (store_run es) (obj_todo_statuses obj)"
    by (simp add: keeps_def)
next
  show "distinct (map obj_todo_statuses (var_snapshots (store_run es)))"
    using store_rel_run[of es] by (simp add: store_rel_def)
next
  show "prefix (build_state_snapshots es) (build_state_snapshots (es @ later))"
    by (rule prefix_build_state_snapshots)
qed

theorem snapshot_keys_persist_and_frozen_witness:
  "(1::nat) < 2 \<and> 2 < length (build_state_snapshots [failed_coder, human_decision])
   \<and> todo_statuses (build_state_snapshots [failed_coder, human_decision] ! 1) ''todo-002''
       = Some ''blocked''
   \<and> todo_statuses (build_state_snapshots [failed_coder, human_decision] ! 2) ''todo-002''
       = Some ''pending''
   \<and> dom (todo_statuses (build_state_snapshots [failed_coder, human_decision] ! 1))
       \<subseteq> dom (todo_statuses (build_state_snapshots [failed_coder, human_decision] ! 2))
   \<and> var_snapshots (store_run [failed_coder, human_decision]) ! 1
       \<in> set (var_snapshots (store_run [failed_coder, human_decision]))
   \<and> heap (store_run ([failed_coder, human_decision] @ happy_path))
         (obj_todo_statuses (var_snapshots (store_run [failed_coder, human_decision]) ! 1))
       = heap (store_run [failed_coder, human_decision])
           (obj_todo_statuses (var_snapshots (store_run [failed_coder, human_decision]) ! 1))
   \<and> heap (store_run [failed_coder, human_decision])
         (obj_todo_statuses (var_snapshots (store_run [failed_coder, human_decision]) ! 1))
         ''todo-002''
       = Some ''blocked''"
proof -
  let ?es = "[failed_coder, human_decision]"
  have tr: "transition failed_coder = Some \<lparr>to_phase = ''escalating'', set_active_todo = None,
              set_status = Some (''todo-002'', ''blocked''),
              with_note = ''Coder reported failure for todo-002.''\<rparr>"
    "transition human_decision = Some \<lparr>to_phase = ''planning'', set_active_todo = None,
              set_status = Some (''todo-002'', ''pending''),
              with_note = ''Human guidance received for todo-002.''\<rparr>"
    by (simp_all add: transition_def failed_coder_def human_decision_def failure_path_todo_ids
        failure_path_status_tokens)
  have len: "length (build_state_snapshots ?es) = 3"
    by (simp add: build_state_snapshots_def bootstrap_def process_event_def tr
        append_snapshot_def assign_def initial_def)
  have s1: "todo_statuses (build_state_snapshots ?es ! 1) ''todo-002'' = Some ''blocked''"
    by (simp add: build_state_snapshots_def bootstrap_def process_event_def tr
        append_snapshot_def assign_def initial_def)
  have s2: "todo_statuses (build_state_snapshots ?es ! 2) ''todo-002'' = Some ''pending''"
    by (simp add: build_state_snapshots_def bootstrap_def process_event_def tr
        append_snapshot_def assign_def initial_def)
  have objs: "length (var_snapshots (store_run ?es)) = 3"
    by (simp add: store_run_def store_bootstrap_def store_process_event_def tr
        store_append_snapshot_def store_assign_def store_initial_def)
  then have mem: "var_snapshots (store_run ?es) ! 1 \<in> set (var_snapshots (store_run ?es))"
    by (intro nth_mem) simp
  have blocked: "heap (store_run ?es) (obj_todo_statuses (var_snapshots (store_run ?es) ! 1))
      ''todo-002'' = Some ''blocked''"
    by (simp add: store_run_def store_bootstrap_def store_process_event_def tr
        store_append_snapshot_def store_assign_def store_initial_def)
  note inst = snapshot_keys_persist_and_frozen[of ?es happy_path]
  have keys: "dom (todo_statuses (build_state_snapshots ?es ! 1))
       \<subseteq> dom (todo_statuses (build_state_snapshots ?es ! 2))"
    by (rule inst[THEN conjunct1, rule_format, of 1 2]) (simp add: len)
  have frozen: "heap (store_run (?es @ happy_path))
         (obj_todo_statuses (var_snapshots (store_run ?es) ! 1))
       = heap (store_run ?es) (obj_todo_statuses (var_snapshots (store_run ?es) ! 1))"
    using inst[THEN conjunct2, THEN conjunct2, THEN conjunct2, THEN conjunct1, rule_format, OF mem]
    by simp
  show ?thesis
    using len s1 s2 keys mem frozen blocked by simp
qed

section \<open>The phases of a completed item\<close>

text \<open>
  Claim C1. For four events of the kinds coder\_payload, coder\_response, tester\_payload and
  tester\_response, in this order, in each of which the pattern finds the item
  \<open>todo-001\<close>, the status word of the second being \<open>success\<close> and that of the fourth
  \<open>pass\<close>, \<^const>\<open>build_state_snapshots\<close> returns exactly five snapshots; their phases
  are bootstrap, dispatch, verifying, verifying, dispatch, and the last one maps
  \<open>todo-001\<close> to \<open>complete\<close>.
\<close>

theorem happy_path_snapshots:
  assumes "payload_type e1 = ''coder_payload''"
      and "TODO_ID_PATTERN_search (content e1) = Some ''todo-001''"
      and "payload_type e2 = ''coder_response''"
      and "TODO_ID_PATTERN_search (content e2) = Some ''todo-001''"
      and "status_token (content e2) = ''success''"
      and "payload_type e3 = ''tester_payload''"
      and "TODO_ID_PATTERN_search (content e3) = Some ''todo-001''"
      and "payload_type e4 = ''tester_response''"
      and "TODO_ID_PATTERN_search (content e4) = Some ''todo-001''"
      and "status_token (content e4) = ''pass''"
  shows "length (build_state_snapshots [e1, e2, e3, e4]) = 5
     \<and> map phase (build_state_snapshots [e1, e2, e3, e4])
         = [''bootstrap'', ''dispatch'', ''verifying'', ''verifying'', ''dispatch'']
     \<and> todo_statuses (last (build_state_snapshots [e1, e2, e3, e4])) ''todo-001'' = Some ''complete''"
  using assms by (simp add: reconstructor_defs)

theorem happy_path_snapshots_witness:
  "length (build_state_snapshots happy_path) = 5
   \<and> map phase (build_state_snapshots happy_path)
       = [''bootstrap'', ''dispatch'', ''verifying'', ''verifying'', ''dispatch'']
   \<and> todo_statuses (last (build_state_snapshots happy_path)) ''todo-001'' = Some ''complete''"
  unfolding happy_path_def
  by (rule happy_path_snapshots) (simp_all add: happy_path_todo_ids happy_path_status_tokens)

section \<open>A failed coder and the human decision\<close>

lemma build_snoc:
  "build_state_snapshots (es @ [e]) =
     snapshots (process_event e (fold process_event es (bootstrap (es @ [e]))))"
  by (simp add: build_state_snapshots_def)

lemma build_snoc_transition:
  assumes "transition e = Some tr"
  shows "\<exists>s. build_state_snapshots (es @ [e]) =
            (if es = [] then snapshots (bootstrap [e]) else build_state_snapshots es) @ [s]
         \<and> phase s = to_phase tr
         \<and> (\<forall>k v. set_status tr = Some (k, v) \<longrightarrow> todo_statuses s k = Some v)"
proof (cases es)
  case Nil
  show ?thesis
    using Nil assms
    by (auto simp: build_state_snapshots_def bootstrap_def process_event_def
        append_snapshot_def assign_def)
next
  case (Cons x xs)
  then have "bootstrap (es @ [e]) = bootstrap es" by (simp add: bootstrap_def)
  then show ?thesis
    using Cons assms
    by (auto simp: build_snoc build_state_snapshots_def process_event_def
        append_snapshot_def assign_def)
qed

lemma length_bootstrap: "length (snapshots (bootstrap [e])) = 1"
  by (simp add: bootstrap_def append_snapshot_def initial_def)

lemma status_token_absent: "status_search c = None \<Longrightarrow> status_token c = []"
  by (simp add: status_token_def)

text \<open>
  Claim C4. After any events, a coder\_response event in which the pattern finds an item and
  whose status word is not \<open>success\<close> makes \<^const>\<open>build_state_snapshots\<close> append one
  snapshot, with phase escalating and the item blocked; a text without a status word has
  the empty status word, which is not \<open>success\<close>. A later stuck\_response event in which
  the pattern finds the same item appends one snapshot, with phase planning and the item
  pending.
\<close>

theorem failure_path_snapshots:
  assumes "payload_type e1 = ''coder_response''"
      and "TODO_ID_PATTERN_search (content e1) = Some tid"
      and "status_token (content e1) \<noteq> ''success''"
      and "payload_type e2 = ''stuck_response''"
      and "TODO_ID_PATTERN_search (content e2) = Some tid"
  shows "prefix (build_state_snapshots before) (build_state_snapshots (before @ [e1]))
     \<and> length (build_state_snapshots (before @ [e1]))
         = (if before = [] then 2 else Suc (length (build_state_snapshots before)))
     \<and> phase (last (build_state_snapshots (before @ [e1]))) = ''escalating''
     \<and> todo_statuses (last (build_state_snapshots (before @ [e1]))) tid = Some ''blocked''
     \<and> prefix (build_state_snapshots (before @ e1 # between))
          (build_state_snapshots (before @ e1 # between @ [e2]))
     \<and> length (build_state_snapshots (before @ e1 # between @ [e2]))
         = Suc (length (build_state_snapshots (before @ e1 # between)))
     \<and> phase (last (build_state_snapshots (before @ e1 # between @ [e2]))) = ''planning''
     \<and> todo_statuses (last (build_state_snapshots (before @ e1 # between @ [e2]))) tid = Some ''pending''
     \<and> (status_search c = None \<longrightarrow> status_token c = [])"
proof -
  have t1: "transition e1 = Some \<lparr>to_phase = ''escalating'', set_active_todo = None,
              set_status = Some (tid, ''blocked''),
              with_note = ''Coder reported failure for '' @ tid @ ''.''\<rparr>"
    using assms(1-3) by (simp add: transition_def)
  have t2: "transition e2 = Some \<lparr>to_phase = ''planning'', set_active_todo = None,
              set_status = Some (tid, ''pending''),
              with_note = ''Human guidance received for '' @ tid @ ''.''\<rparr>"
    using assms(4,5) by (simp add: transition_def)
  from build_snoc_transition[OF t1, of before]
  obtain s1 where s1: "build_state_snapshots (before @ [e1]) =
        (if before = [] then snapshots (bootstrap [e1])
         else build_state_snapshots before) @ [s1]"
      "phase s1 = ''escalating''" "todo_statuses s1 tid = Some ''blocked''"
    by auto
  from build_snoc_transition[OF t2, of "before @ e1 # between"]
  obtain s2 where s2: "build_state_snapshots (before @ e1 # between @ [e2]) =
        build_state_snapshots (before @ e1 # between) @ [s2]"
      "phase s2 = ''planning''" "todo_statuses s2 tid = Some ''pending''"
    by auto
  have a: "prefix (build_state_snapshots before) (build_state_snapshots (before @ [e1]))"
    by (rule prefix_build_state_snapshots)
  have b: "length (build_state_snapshots (before @ [e1]))
         = (if before = [] then 2 else Suc (length (build_state_snapshots before)))"
    using s1(1) by (simp add: length_bootstrap)
  show ?thesis
    using a b s1 s2 by (simp add: status_token_absent)
qed

theorem failure_path_snapshots_witness:
  "status_search brief_coder_silence = None
   \<and> status_token (content silent_coder) = []
   \<and> length (build_state_snapshots [silent_coder]) = 2
   \<and> phase (last (build_state_snapshots [silent_coder])) = ''escalating''
   \<and> todo_statuses (last (build_state_snapshots [silent_coder])) ''todo-002'' = Some ''blocked''
   \<and> phase (last (build_state_snapshots [silent_coder, human_decision])) = ''planning''
   \<and> todo_statuses (last (build_state_snapshots [silent_coder, human_decision])) ''todo-002''
       = Some ''pending''
   \<and> status_token (content failed_coder) = ''failed''
   \<and> phase (last (build_state_snapshots (happy_path @ [failed_coder]))) = ''escalating''
   \<and> todo_statuses (last (build_state_snapshots (happy_path @ [failed_coder]))) ''todo-002''
       = Some ''blocked''
   \<and> phase (last (build_state_snapshots (happy_path @ failed_coder # happy_path @ [human_decision])))
       = ''planning''"
proof -
  have silent: "payload_type silent_coder = ''coder_response''"
    "TODO_ID_PATTERN_search (content silent_coder) = Some ''todo-002''"
    "status_token (content silent_coder) \<noteq> ''success''"
    "status_token (content silent_coder) = []"
    by (simp_all add: silent_coder_def failure_path_todo_ids failure_path_status_tokens
        status_token_absent)
  have failed: "payload_type failed_coder = ''coder_response''"
    "TODO_ID_PATTERN_search (content failed_coder) = Some ''todo-002''"
    "status_token (content failed_coder) \<noteq> ''success''"
    "status_token (content failed_coder) = ''failed''"
    by (simp_all add: failed_coder_def failure_path_todo_ids failure_path_status_tokens)
  have human: "payload_type human_decision = ''stuck_response''"
    "TODO_ID_PATTERN_search (content human_decision) = Some ''todo-002''"
    by (simp_all add: human_decision_def failure_path_todo_ids)
  note w1 = failure_path_snapshots[OF silent(1-3) human, of "[]" "[]" brief_coder_silence]
  note w2 = failure_path_snapshots[OF failed(1-3) human, of happy_path happy_path brief_coder_silence]
  show ?thesis
    using w1 w2 silent(4) failed(4) failure_path_status_tokens(2) by simp
qed

section \<open>The matcher of events\<close>

lemma next_match_Some:
  "next_match keys consumed b i = Some idx \<Longrightarrow>
     i \<le> idx \<and> idx < i + length keys \<and> \<not> consumed ! idx \<and> same_item (keys ! (idx - i)) b
     \<and> (\<forall>j. i \<le> j \<and> j < idx \<longrightarrow> consumed ! j \<or> \<not> same_item (keys ! (j - i)) b)"
proof (induction keys arbitrary: i)
  case Nil
  then show ?case by simp
next
  case (Cons key keys)
  show ?case
  proof (cases "\<not> consumed ! i \<and> same_item key b")
    case True
    with Cons.prems have "idx = i" by (simp add: same_item_def)
    with True show ?thesis by auto
  next
    case False
    with Cons.prems have rec: "next_match keys consumed b (Suc i) = Some idx"
      by (auto simp: same_item_def)
    from Cons.IH[OF rec]
    have ih: "Suc i \<le> idx" "idx < Suc i + length keys" "\<not> consumed ! idx"
      "same_item (keys ! (idx - Suc i)) b"
      "\<forall>j. Suc i \<le> j \<and> j < idx \<longrightarrow> consumed ! j \<or> \<not> same_item (keys ! (j - Suc i)) b"
      by auto
    have "same_item ((key # keys) ! (idx - i)) b"
      using ih(1,4) by (simp add: nth_Cons' Suc_diff_le)
    moreover have "\<forall>j. i \<le> j \<and> j < idx \<longrightarrow> consumed ! j \<or> \<not> same_item ((key # keys) ! (j - i)) b"
    proof (intro allI impI)
      fix j assume j: "i \<le> j \<and> j < idx"
      show "consumed ! j \<or> \<not> same_item ((key # keys) ! (j - i)) b"
      proof (cases "j = i")
        case True
        with False show ?thesis by auto
      next
        case False
        with j have "Suc i \<le> j" by simp
        with ih(5) j have "consumed ! j \<or> \<not> same_item (keys ! (j - Suc i)) b" by blast
        moreover from \<open>Suc i \<le> j\<close> have "(key # keys) ! (j - i) = keys ! (j - Suc i)"
          by (simp add: nth_Cons' Suc_diff_le)
        ultimately show ?thesis by simp
      qed
    qed
    ultimately show ?thesis using ih by simp
  qed
qed

lemma next_match_None:
  "next_match keys consumed b i = None \<longleftrightarrow>
     (\<forall>j<length keys. consumed ! (i + j) \<or> \<not> same_item (keys ! j) b)"
proof (induction keys arbitrary: i)
  case Nil
  then show ?case by simp
next
  case (Cons key keys)
  have "(\<forall>j<length (key # keys). consumed ! (i + j) \<or> \<not> same_item ((key # keys) ! j) b)
      \<longleftrightarrow> (consumed ! i \<or> \<not> same_item key b)
          \<and> (\<forall>j<length keys. consumed ! (Suc i + j) \<or> \<not> same_item (keys ! j) b)"
    by (auto simp: All_less_Suc2)
  with Cons.IH[of "Suc i"] show ?case
    by (auto simp: same_item_def)
qed

lemma next_match_first:
  "k < length keys \<Longrightarrow> \<forall>j<k. consumed ! (i + j) \<or> \<not> same_item (keys ! j) b \<Longrightarrow>
     \<not> consumed ! (i + k) \<Longrightarrow> same_item (keys ! k) b \<Longrightarrow>
     next_match keys consumed b i = Some (i + k)"
proof (induction keys arbitrary: i k)
  case Nil
  then show ?case by simp
next
  case (Cons key keys)
  show ?case
  proof (cases k)
    case 0
    with Cons.prems show ?thesis by (simp add: same_item_def)
  next
    case (Suc k')
    from Cons.prems(2) Suc have first: "consumed ! i \<or> \<not> same_item key b"
      by (auto dest: spec[of _ 0])
    have rest: "\<forall>j<k'. consumed ! (Suc i + j) \<or> \<not> same_item (keys ! j) b"
    proof (intro allI impI)
      fix j assume "j < k'"
      then have "Suc j < k" using Suc by simp
      with Cons.prems(2) have "consumed ! (i + Suc j) \<or> \<not> same_item ((key # keys) ! Suc j) b"
        by blast
      then show "consumed ! (Suc i + j) \<or> \<not> same_item (keys ! j) b" by simp
    qed
    have "next_match keys consumed b (Suc i) = Some (Suc i + k')"
      using Cons.prems Suc by (intro Cons.IH rest) simp_all
    with first Suc show ?thesis by (auto simp: same_item_def)
  qed
qed

lemma length_match_step:
  "length (fst (match_step actual_keys (consumed, missing) b)) = length consumed"
  by (simp add: match_step_def Let_def split: option.splits)

lemma length_fold_match_step:
  "length (fst (foldl (match_step actual_keys) state bs)) = length (fst state)"
proof (induction bs arbitrary: state)
  case Nil
  then show ?case by simp
next
  case (Cons b bs)
  obtain consumed missing where st: "state = (consumed, missing)" by (cases state)
  show ?case
    using Cons.IH[of "match_step actual_keys state b"] length_match_step[of actual_keys consumed missing b]
    by (simp add: st)
qed

lemma unconsumed_nths:
  "length consumed = length keys \<Longrightarrow>
     unconsumed keys consumed = map (\<lambda>i. keys ! i) (filter (\<lambda>i. \<not> consumed ! i) [0..<length keys])"
proof (induction keys arbitrary: consumed rule: rev_induct)
  case Nil
  then show ?case by (simp add: unconsumed_def)
next
  case (snoc key keys)
  then obtain c cs where c: "consumed = cs @ [c]" "length cs = length keys"
    by (cases consumed rule: rev_cases) auto
  have ih: "unconsumed keys cs = map (\<lambda>i. keys ! i) (filter (\<lambda>i. \<not> cs ! i) [0..<length keys])"
    using snoc.IH c(2) by simp
  have eq1: "filter (\<lambda>i. \<not> (cs @ [c]) ! i) [0..<length keys] = filter (\<lambda>i. \<not> cs ! i) [0..<length keys]"
    using c(2) by (intro filter_cong refl) (simp add: nth_append)
  have eq2: "map (\<lambda>i. (keys @ [key]) ! i) (filter (\<lambda>i. \<not> cs ! i) [0..<length keys])
      = map (\<lambda>i. keys ! i) (filter (\<lambda>i. \<not> cs ! i) [0..<length keys])"
    by (intro map_cong refl) (simp add: nth_append)
  show ?case
    using ih c eq1 eq2 by (simp add: unconsumed_def nth_append)
qed

lemma lower_char_range:
  "lower_char c = c \<or> lower_char c \<in> set (ascii_lower @ latin_lower)"
proof (cases "map_of (zip (ascii_upper @ latin_upper) (ascii_lower @ latin_lower)) c")
  case None
  then show ?thesis by (simp add: lower_char_def)
next
  case (Some l)
  then have "(c, l) \<in> set (zip (ascii_upper @ latin_upper) (ascii_lower @ latin_lower))"
    by (rule map_of_SomeD)
  then have "l \<in> set (ascii_lower @ latin_lower)" by (rule set_zip_rightD)
  with Some show ?thesis by (simp add: lower_char_def)
qed

lemma colon_not_lower: "CHR '':'' \<notin> set (ascii_lower @ latin_lower)"
  by (simp add: ascii_lower_def latin_lower_def)

lemma lower_char_colon: "lower_char c = CHR '':'' \<Longrightarrow> c = CHR '':''"
  using lower_char_range[of c] colon_not_lower by auto

lemma set_strip: "set (strip s) \<subseteq> set s"
proof -
  have "set (rstrip t) \<subseteq> set t" for t
    using set_dropWhileD[of _ is_space "rev t"] by (auto simp: rstrip_def)
  moreover have "set (lstrip s) \<subseteq> set s"
    using set_dropWhileD[of _ is_space s] by (auto simp: lstrip_def)
  ultimately show ?thesis unfolding strip_def by blast
qed

lemma todo_line_has_colon:
  assumes "startswith (lower (strip line)) ''todo id:''"
  shows "CHR '':'' \<in> set line"
proof -
  from assms obtain z where "lower (strip line) = ''todo id:'' @ z"
    by (auto simp: startswith_prefix prefix_def)
  then have "CHR '':'' \<in> set (lower (strip line))" by simp
  then obtain c where "c \<in> set (strip line)" "lower_char c = CHR '':''"
    by (auto simp: lower_def)
  then have "CHR '':'' \<in> set (strip line)" using lower_char_colon by auto
  then show ?thesis using set_strip by blast
qed

lemma find_todo_id_total: "\<exists>t. find_todo_id lines = Inr t"
proof (induction lines)
  case Nil
  then show ?case by simp
next
  case (Cons line lines)
  then show ?case
    by (auto simp: after_colon_def dest: todo_line_has_colon)
qed

lemma extract_event_key_total: "\<exists>k. extract_event_key e = Inr k"
  using find_todo_id_total[of "splitlines (content e)"]
  by (auto simp: extract_event_key_def)

lemma event_keys_total: "\<exists>ks. event_keys es = Inr ks \<and> length ks = length es"
proof (induction es)
  case Nil
  then show ?case by simp
next
  case (Cons e es)
  then show ?case
    using extract_event_key_total[of e] by auto
qed

lemma match_step_found:
  assumes "next_match actual_keys consumed b 0 = Some idx"
  shows "match_step actual_keys (consumed, missing) b =
           (consumed[idx := True],
            missing @ (if key_sender (actual_keys ! idx) = key_sender b
                          \<and> key_recipient (actual_keys ! idx) = key_recipient b
                       then [] else [routing_mismatch b (actual_keys ! idx)]))"
  using assms by (simp add: match_step_def Let_def)

lemma match_step_not_found:
  assumes "next_match actual_keys consumed b 0 = None"
  shows "match_step actual_keys (consumed, missing) b = (consumed, missing @ [missing_event b])"
  using assms by (simp add: match_step_def Let_def)

lemma routing_mismatch_not_missing: "routing_mismatch b k \<noteq> missing_event b'"
  by (simp add: routing_mismatch_def missing_event_def)

lemma contains_append: "contains (pre @ p @ post) p"
  by (simp add: contains_sublist sublist_appendI)

lemma routing_mismatch_names_both:
  "contains (routing_mismatch b k) (''baseline '' @ key_sender b @ ''->'' @ key_recipient b)"
  "contains (routing_mismatch b k) (''actual '' @ key_sender k @ ''->'' @ key_recipient k)"
proof -
  have "routing_mismatch b k =
      (''Routing mismatch for '' @ key_payload_type b @ '' '' @ todo_id b @ '': '')
      @ (''baseline '' @ key_sender b @ ''->'' @ key_recipient b)
      @ ('', '' @ ''actual '' @ key_sender k @ ''->'' @ key_recipient k)"
    by (simp add: routing_mismatch_def)
  then show "contains (routing_mismatch b k) (''baseline '' @ key_sender b @ ''->'' @ key_recipient b)"
    by (simp only: contains_append)
  have "routing_mismatch b k =
      (''Routing mismatch for '' @ key_payload_type b @ '' '' @ todo_id b @ '': ''
       @ ''baseline '' @ key_sender b @ ''->'' @ key_recipient b @ '', '')
      @ (''actual '' @ key_sender k @ ''->'' @ key_recipient k) @ []"
    by (simp add: routing_mismatch_def)
  then show "contains (routing_mismatch b k) (''actual '' @ key_sender k @ ''->'' @ key_recipient k)"
    by (simp only: contains_append)
qed

lemma event_keys_map: "event_keys es = Inr ks \<Longrightarrow> map extract_event_key es = map Inr ks"
proof (induction es arbitrary: ks)
  case Nil
  then show ?case by simp
next
  case (Cons e es)
  then show ?case by (auto split: sum.splits)
qed

text \<open>
  Claim C2. One step of the loop of \<^const>\<open>compare_events\<close> over the baseline keys, from
  any flags as long as the list of actual keys: when an unconsumed actual key has the
  \<^verbatim>\<open>(payload_type, todo_id)\<close> of the baseline key, the first such key is consumed, and the
  step adds one routing-mismatch finding when sender or recipient differ and nothing
  otherwise; when there is none, the step adds one missing-event finding and consumes
  nothing. A routing-mismatch finding is never a missing-event finding, and it holds both
  directions. The keys are those of the events, position by position: the key at an index
  is \<^const>\<open>extract_event_key\<close> of the event at that index, and deriving it never fails. So
  the steps run in the order of the baseline events, the key consumed is that of the first
  unconsumed actual event that matches, and the extra-event findings are those of the
  actual events left unconsumed at the end, one finding each, in their order.
\<close>

theorem compare_events_greedy:
  assumes "length actual_consumed = length actual_keys"
  shows "(case next_match actual_keys actual_consumed base_key 0 of
            Some idx \<Rightarrow>
              idx < length actual_keys \<and> \<not> actual_consumed ! idx
              \<and> same_item (actual_keys ! idx) base_key
              \<and> (\<forall>j<idx. actual_consumed ! j \<or> \<not> same_item (actual_keys ! j) base_key)
              \<and> match_step actual_keys (actual_consumed, missing) base_key =
                  (actual_consumed[idx := True],
                   missing @ (if key_sender (actual_keys ! idx) = key_sender base_key
                                 \<and> key_recipient (actual_keys ! idx) = key_recipient base_key
                              then [] else [routing_mismatch base_key (actual_keys ! idx)]))
          | None \<Rightarrow>
              (\<forall>j<length actual_keys. actual_consumed ! j \<or> \<not> same_item (actual_keys ! j) base_key)
              \<and> match_step actual_keys (actual_consumed, missing) base_key =
                  (actual_consumed, missing @ [missing_event base_key]))
     \<and> length (fst (match_step actual_keys (actual_consumed, missing) base_key)) = length actual_keys
     \<and> routing_mismatch base_key key \<noteq> missing_event other
     \<and> contains (routing_mismatch base_key key)
          (''baseline '' @ key_sender base_key @ ''->'' @ key_recipient base_key)
     \<and> contains (routing_mismatch base_key key)
          (''actual '' @ key_sender key @ ''->'' @ key_recipient key)
     \<and> compare_keys baseline_keys actual_keys =
         (let final = foldl (match_step actual_keys)
                        (replicate (length actual_keys) False, []) baseline_keys
          in (snd final,
              map (\<lambda>i. unexpected_event (actual_keys ! i))
                (filter (\<lambda>i. \<not> fst final ! i) [0..<length actual_keys])))
     \<and> (\<exists>bs as. map extract_event_key baseline_events = map Inr bs
           \<and> map extract_event_key actual_events = map Inr as
           \<and> event_keys baseline_events = Inr bs \<and> length bs = length baseline_events
           \<and> event_keys actual_events = Inr as \<and> length as = length actual_events
           \<and> compare_events baseline_events actual_events = Inr (compare_keys bs as))"
proof -
  have step: "(case next_match actual_keys actual_consumed base_key 0 of
            Some idx \<Rightarrow>
              idx < length actual_keys \<and> \<not> actual_consumed ! idx
              \<and> same_item (actual_keys ! idx) base_key
              \<and> (\<forall>j<idx. actual_consumed ! j \<or> \<not> same_item (actual_keys ! j) base_key)
              \<and> match_step actual_keys (actual_consumed, missing) base_key =
                  (actual_consumed[idx := True],
                   missing @ (if key_sender (actual_keys ! idx) = key_sender base_key
                                 \<and> key_recipient (actual_keys ! idx) = key_recipient base_key
                              then [] else [routing_mismatch base_key (actual_keys ! idx)]))
          | None \<Rightarrow>
              (\<forall>j<length actual_keys. actual_consumed ! j \<or> \<not> same_item (actual_keys ! j) base_key)
              \<and> match_step actual_keys (actual_consumed, missing) base_key =
                  (actual_consumed, missing @ [missing_event base_key]))"
  proof (cases "next_match actual_keys actual_consumed base_key 0")
    case None
    then show ?thesis
      using next_match_None[of actual_keys actual_consumed base_key 0]
      by (simp add: match_step_not_found)
  next
    case (Some idx)
    from next_match_Some[OF Some] match_step_found[OF Some, of missing]
    show ?thesis using Some by simp
  qed
  have len: "length (fst (match_step actual_keys (actual_consumed, missing) base_key)) = length actual_keys"
    using assms by (simp add: length_match_step)
  have fin: "compare_keys baseline_keys actual_keys =
         (let final = foldl (match_step actual_keys)
                        (replicate (length actual_keys) False, []) baseline_keys
          in (snd final,
              map (\<lambda>i. unexpected_event (actual_keys ! i))
                (filter (\<lambda>i. \<not> fst final ! i) [0..<length actual_keys])))"
    using unconsumed_nths[of "fst (foldl (match_step actual_keys)
                        (replicate (length actual_keys) False, []) baseline_keys)" actual_keys]
    by (simp add: compare_keys_def Let_def length_fold_match_step)
  obtain bs where bs: "event_keys baseline_events = Inr bs" "length bs = length baseline_events"
    using event_keys_total[of baseline_events] by blast
  obtain as where as: "event_keys actual_events = Inr as" "length as = length actual_events"
    using event_keys_total[of actual_events] by blast
  have "compare_events baseline_events actual_events = Inr (compare_keys bs as)"
    using bs(1) as(1) by (simp add: compare_events_def)
  then have ev: "\<exists>bs as. map extract_event_key baseline_events = map Inr bs
           \<and> map extract_event_key actual_events = map Inr as
           \<and> event_keys baseline_events = Inr bs \<and> length bs = length baseline_events
           \<and> event_keys actual_events = Inr as \<and> length as = length actual_events
           \<and> compare_events baseline_events actual_events = Inr (compare_keys bs as)"
    using bs as event_keys_map[OF bs(1)] event_keys_map[OF as(1)] by blast
  show ?thesis
    using step len fin ev routing_mismatch_not_missing routing_mismatch_names_both
    by (intro conjI) 
qed

text \<open>
  Three actual events, of which the first two have the item of the first two baseline
  events: the first baseline event takes the first of them, whose route differs, the second
  takes the one after the consumed one, the third finds none, and the third actual event
  is left over. Then two events compared with themselves in the other order: each baseline
  event takes the first match, not its own copy.
\<close>

theorem compare_events_greedy_witness:
  "length [True, False, False] = length [key_to_tester, key_to_coder, key_stuck_dispatch]
   \<and> next_match [key_to_tester, key_to_coder, key_stuck_dispatch] [False, False, False]
         key_to_coder 0 = Some 0
   \<and> match_step [key_to_tester, key_to_coder, key_stuck_dispatch]
         ([False, False, False], []) key_to_coder =
       ([True, False, False],
        [''Routing mismatch for coder_payload todo-001: baseline orchestrator->coder, actual orchestrator->tester''])
   \<and> next_match [key_to_tester, key_to_coder, key_stuck_dispatch] [True, False, False]
         key_to_coder 0 = Some 1
   \<and> match_step [key_to_tester, key_to_coder, key_stuck_dispatch]
         ([True, False, False],
          [''Routing mismatch for coder_payload todo-001: baseline orchestrator->coder, actual orchestrator->tester''])
         key_to_coder =
       ([True, True, False],
        [''Routing mismatch for coder_payload todo-001: baseline orchestrator->coder, actual orchestrator->tester''])
   \<and> next_match [key_to_tester, key_to_coder, key_stuck_dispatch] [True, True, False]
         key_failed_coder 0 = None
   \<and> match_step [key_to_tester, key_to_coder, key_stuck_dispatch]
         ([True, True, False],
          [''Routing mismatch for coder_payload todo-001: baseline orchestrator->coder, actual orchestrator->tester''])
         key_failed_coder =
       ([True, True, False],
        [''Routing mismatch for coder_payload todo-001: baseline orchestrator->coder, actual orchestrator->tester'',
         ''Missing event coder_response for todo-002''])
   \<and> map extract_event_key [routed_to_coder, routed_to_coder, failed_coder] =
       map Inr [key_to_coder, key_to_coder, key_failed_coder]
   \<and> map extract_event_key [routed_to_tester, routed_to_coder, stuck_dispatch] =
       map Inr [key_to_tester, key_to_coder, key_stuck_dispatch]
   \<and> compare_events [routed_to_coder, routed_to_coder, failed_coder]
         [routed_to_tester, routed_to_coder, stuck_dispatch] =
       Inr ([''Routing mismatch for coder_payload todo-001: baseline orchestrator->coder, actual orchestrator->tester'',
             ''Missing event coder_response for todo-002''],
            [''Unexpected event stuck_payload for unknown (orchestrator->stuck)''])
   \<and> compare_events [routed_to_coder, routed_to_tester] [routed_to_tester, routed_to_coder] =
       Inr ([''Routing mismatch for coder_payload todo-001: baseline orchestrator->coder, actual orchestrator->tester'',
             ''Routing mismatch for coder_payload todo-001: baseline orchestrator->tester, actual orchestrator->coder''],
            [])"
proof -
  let ?keys = "[key_to_tester, key_to_coder, key_stuck_dispatch]"
  let ?msg = "''Routing mismatch for coder_payload todo-001: baseline orchestrator->coder, actual orchestrator->tester''"
  have len: "length [True, False, False] = length ?keys" by simp
  have len0: "length [False, False, False] = length ?keys" by simp
  have len2: "length [True, True, False] = length ?keys" by simp
  have first: "next_match ?keys [False, False, False] key_to_coder 0 = Some 0"
    by (simp add: key_to_tester_def key_to_coder_def)
  have second: "next_match ?keys [True, False, False] key_to_coder 0 = Some 1"
    by (simp add: key_to_tester_def key_to_coder_def)
  have absent: "next_match ?keys [True, True, False] key_failed_coder 0 = None"
    by (simp add: key_to_tester_def key_to_coder_def key_failed_coder_def key_stuck_dispatch_def)
  note a = compare_events_greedy[OF len0, of key_to_coder "[]" key_to_tester key_to_coder "[]"
      "[]" "[]", THEN conjunct1]
  have step1: "match_step ?keys ([False, False, False], []) key_to_coder =
       ([True, False, False], [?msg])"
    using a unfolding first option.case
    by (simp add: key_to_tester_def key_to_coder_def routing_mismatch_def)
  note b = compare_events_greedy[OF len, of key_to_coder "[?msg]" key_to_tester key_to_coder "[]"
      "[]" "[]", THEN conjunct1]
  have step2: "match_step ?keys ([True, False, False], [?msg]) key_to_coder =
       ([True, True, False], [?msg])"
    using b unfolding second option.case
    by (simp add: key_to_coder_def)
  note c = compare_events_greedy[OF len2, of key_failed_coder "[?msg]" key_to_tester key_to_coder
      "[]" "[]" "[]", THEN conjunct1]
  have step3: "match_step ?keys ([True, True, False], [?msg]) key_failed_coder =
       ([True, True, False], [?msg, ''Missing event coder_response for todo-002''])"
    using c unfolding absent option.case
    by (simp add: key_failed_coder_def missing_event_def)
  have keys1: "map extract_event_key [routed_to_coder, routed_to_coder, failed_coder] =
       map Inr [key_to_coder, key_to_coder, key_failed_coder]"
    by (simp add: example_keys)
  have keys2: "map extract_event_key [routed_to_tester, routed_to_coder, stuck_dispatch] =
       map Inr ?keys"
    by (simp add: example_keys)
  have run: "compare_events [routed_to_coder, routed_to_coder, failed_coder]
         [routed_to_tester, routed_to_coder, stuck_dispatch] =
       Inr ([?msg, ''Missing event coder_response for todo-002''],
            [''Unexpected event stuck_payload for unknown (orchestrator->stuck)''])"
    by (simp add: compare_events_def example_keys compare_keys_def step1 step2 step3 unconsumed_def)
      (simp add: key_stuck_dispatch_def unexpected_event_def)
  have swapped: "compare_events [routed_to_coder, routed_to_tester] [routed_to_tester, routed_to_coder] =
       Inr ([?msg,
             ''Routing mismatch for coder_payload todo-001: baseline orchestrator->tester, actual orchestrator->coder''],
            [])"
    by (simp add: compare_events_def example_keys compare_keys_def match_step_def unconsumed_def
        routing_mismatch_def key_to_coder_def key_to_tester_def)
  show ?thesis
    by (intro conjI len first step1 second step2 absent step3 keys1 keys2 run swapped)
qed

section \<open>A trace compared with itself\<close>

lemma same_item_refl: "same_item k k"
  by (simp add: same_item_def)

lemma self_fold:
  "n \<le> length ks \<Longrightarrow>
     foldl (match_step ks) (replicate n True @ replicate (length ks - n) False, missing) (drop n ks)
       = (replicate (length ks) True, missing)"
proof (induction "length ks - n" arbitrary: n)
  case 0
  then show ?case by simp
next
  case (Suc m)
  then have n: "n < length ks" by simp
  let ?flags = "replicate n True @ replicate (length ks - n) False"
  have "next_match ks ?flags (ks ! n) 0 = Some (0 + n)"
  proof (rule next_match_first)
    show "n < length ks" by (rule n)
    show "\<forall>j<n. ?flags ! (0 + j) \<or> \<not> same_item (ks ! j) (ks ! n)"
      by (simp add: nth_append)
    show "\<not> ?flags ! (0 + n)" using n by (simp add: nth_append)
    show "same_item (ks ! n) (ks ! n)" by (rule same_item_refl)
  qed
  then have step: "match_step ks (?flags, missing) (ks ! n) = (?flags[n := True], missing)"
    by (simp add: match_step_found)
  have flags: "?flags[n := True] = replicate (Suc n) True @ replicate (length ks - Suc n) False"
  proof -
    have k: "length ks - n = Suc (length ks - Suc n)" using n by simp
    have "?flags[n := True] = replicate n True @ (True # replicate (length ks - Suc n) False)"
      unfolding k by (simp add: list_update_append)
    also have "\<dots> = replicate (Suc n) True @ replicate (length ks - Suc n) False"
      by (simp add: replicate_app_Cons_same)
    finally show ?thesis .
  qed
  have m: "m = length ks - Suc n" using Suc.hyps(2) by simp
  have "foldl (match_step ks) (?flags, missing) (drop n ks)
      = foldl (match_step ks) (match_step ks (?flags, missing) (ks ! n)) (drop (Suc n) ks)"
    using n by (simp flip: Cons_nth_drop_Suc)
  also have "\<dots> = (replicate (length ks) True, missing)"
    unfolding step flags using Suc.hyps(1)[OF m] n by simp
  finally show ?case .
qed

lemma unconsumed_all_consumed: "unconsumed ks (replicate n True) = []"
  by (auto simp: unconsumed_def filter_empty_conv dest: set_zip_rightD)

lemma compare_keys_self: "compare_keys ks ks = ([], [])"
  using self_fold[of 0 ks "[]"]
  by (simp add: compare_keys_def unconsumed_all_consumed)

lemma compare_events_self: "compare_events es es = Inr ([], [])"
  using event_keys_total[of es] by (auto simp: compare_events_def compare_keys_self)

lemma snapshot_loop_self: "idx \<le> length xs \<Longrightarrow> snapshot_loop idx (drop idx xs) xs = []"
proof (induction "length xs - idx" arbitrary: idx)
  case 0
  then show ?case by simp
next
  case (Suc m)
  then have idx: "idx < length xs" by simp
  have "drop idx xs = xs ! idx # drop (Suc idx) xs"
    using idx by (simp add: Cons_nth_drop_Suc)
  moreover have "snapshot_loop (Suc idx) (drop (Suc idx) xs) xs = []"
    using Suc idx by (intro Suc.hyps(1)) simp_all
  ultimately show ?case using idx by simp
qed

lemma compare_state_snapshots_self: "compare_state_snapshots xs xs = []"
  using snapshot_loop_self[of 0 xs] by (simp add: compare_state_snapshots_def)

lemma collect_validation_failures_empty:
  "collect_validation_failures vs = [] \<longleftrightarrow> list_all (\<lambda>v. status v = ''pass'') vs"
  by (simp add: collect_validation_failures_def filter_empty_conv list_all_iff)

text \<open>
  Claim C3, in the form that holds. The diff of a well-formed trace against itself has no
  missing or mismatched event, no extra event and no snapshot difference; its validation
  findings are one for every validation of the trace whose status is not \<open>pass\<close>, so
  there is none exactly when every validation of the trace passes.
\<close>

theorem diff_self_findings:
  "diff T T =
     Inr \<lparr>missing_events = [], extra_events = [],
          validation_failures = collect_validation_failures (validations T),
          state_diffs = []\<rparr>
   \<and> length (collect_validation_failures (validations T))
       = length (filter (\<lambda>v. status v \<noteq> ''pass'') (validations T))
   \<and> (collect_validation_failures (validations T) = []
        \<longleftrightarrow> list_all (\<lambda>v. status v = ''pass'') (validations T))"
  by (simp add: diff_def compare_events_self compare_state_snapshots_self
      collect_validation_failures_empty)
    (simp add: collect_validation_failures_def)

text \<open>
  The claim as stated fails on a trace with a failing validation: the diff of the trace
  against itself reports it.
\<close>

theorem diff_self_counterexample:
  "diff failing_trace failing_trace =
     Inr \<lparr>missing_events = [], extra_events = [],
          validation_failures =
            [''coder_payload_todo-001 missing sections OUTPUT FORMAT:, POST-CONDITIONS:, ```diff''],
          state_diffs = []\<rparr>
   \<and> diff failing_trace failing_trace \<noteq>
       Inr \<lparr>missing_events = [], extra_events = [], validation_failures = [], state_diffs = []\<rparr>"
  by (simp add: diff_def compare_events_self compare_state_snapshots_self failing_trace_def
      failing_validation collect_validation_failures_def)

section \<open>A top-level content hides the message\<close>

lemma content_candidates_top:
  "map_of kvs ''content'' = Some v \<Longrightarrow> content_candidates (JObj kvs) = Inr (Some (ensure_list v))"
  by (simp add: content_candidates_def)

lemma flatten_text_top:
  "map_of kvs ''content'' = Some v \<Longrightarrow>
     flatten_text (JObj kvs) =
       (case strings_of (concat (map extract_candidate (ensure_list v))) of
          Inl e \<Rightarrow> Inl e
        | Inr extracted \<Rightarrow> Inr (strip (join [CHR 0x0A] extracted)))"
  by (simp add: flatten_text_def content_candidates_top)

lemma concat_nothing:
  "list_all (\<lambda>c. extract_candidate c = []) cs \<Longrightarrow> concat (map extract_candidate cs) = []"
  unfolding list_all_iff concat_eq_Nil_conv by auto

lemma strip_empty: "strip [] = []"
  by (simp add: strip_def lstrip_def rstrip_def)

text \<open>The join raises as soon as one extracted value is not a string.\<close>

lemma strings_of_not_string:
  "x \<in> set xs \<Longrightarrow> \<forall>s. x \<noteq> JStr s \<Longrightarrow> strings_of xs = Inl TypeError"
proof (induction xs rule: strings_of.induct)
  case 1
  then show ?case by simp
next
  case (2 s vs)
  then show ?case by auto
qed simp_all

lemma text_part_extracted:
  assumes "dict_get part ''type'' = JStr ''text''" "map_of part ''text'' = Some t"
  shows "extract_candidate (JObj part) = [t]"
  using assms by (simp add: dict_get_def)

lemma flatten_text_not_string:
  assumes c: "map_of kvs ''content'' = Some v"
    and p: "JObj part \<in> set (ensure_list v)"
    and ty: "dict_get part ''type'' = JStr ''text''"
    and tx: "map_of part ''text'' = Some t"
    and ns: "\<forall>s. t \<noteq> JStr s"
  shows "flatten_text (JObj kvs) = Inl TypeError"
proof -
  have "t \<in> set (concat (map extract_candidate (ensure_list v)))"
    using p text_part_extracted[OF ty tx] by force
  then have "strings_of (concat (map extract_candidate (ensure_list v))) = Inl TypeError"
    using ns by (rule strings_of_not_string)
  then show ?thesis by (simp add: flatten_text_top[OF c])
qed

text \<open>
  Claim C10. For a raw record with a top-level \<open>content\<close> key, \<^const>\<open>flatten_text\<close>
  is what it is for the record with that key alone: the message and the payload are not
  read. When no candidate of the top-level content appends anything (a number does not, nor
  does an object that has neither a text of type \<open>text\<close> nor a string value), the text is
  empty and the trace builder skips the record. The code departs from the claim at a
  candidate of type \<open>text\<close> whose text is not a string: the candidate gives no string, but
  its text is appended unchecked, the join raises \<^verbatim>\<open>TypeError\<close>, and the loop of the
  trace builder ends with that exception instead of skipping the record.
\<close>

theorem flatten_text_top_level_content_only:
  "(map_of kvs ''content'' = Some v \<longrightarrow>
      flatten_text (JObj kvs) = flatten_text (JObj [(''content'', v)]))
   \<and> (map_of kvs ''content'' = Some v \<and> list_all (\<lambda>c. extract_candidate c = []) (ensure_list v) \<longrightarrow>
      flatten_text (JObj kvs) = Inr []
      \<and> extract_loop dt clock render (JObj kvs # rest) seq results vals
          = extract_loop dt clock render rest seq results vals)
   \<and> extract_candidate (JNum x) = []
   \<and> (\<not> (dict_get part ''type'' = JStr ''text'' \<and> map_of part ''text'' \<noteq> None)
        \<and> (\<forall>s. map_of part ''value'' \<noteq> Some (JStr s)) \<longrightarrow>
      extract_candidate (JObj part) = [])
   \<and> (map_of kvs ''content'' = Some v \<and> JObj part \<in> set (ensure_list v)
        \<and> dict_get part ''type'' = JStr ''text'' \<and> map_of part ''text'' = Some t
        \<and> (\<forall>s. t \<noteq> JStr s) \<longrightarrow>
      flatten_text (JObj kvs) = Inl TypeError
      \<and> extract_loop dt clock render (JObj kvs # rest) seq results vals = Inl TypeError)"
proof (intro conjI impI)
  assume c: "map_of kvs ''content'' = Some v"
  show "flatten_text (JObj kvs) = flatten_text (JObj [(''content'', v)])"
    using flatten_text_top[OF c] flatten_text_top[of "[(''content'', v)]" v] by simp
next
  assume h: "map_of kvs ''content'' = Some v \<and> list_all (\<lambda>c. extract_candidate c = []) (ensure_list v)"
  then show f: "flatten_text (JObj kvs) = Inr []"
    by (simp add: flatten_text_top concat_nothing strip_empty)
  then show "extract_loop dt clock render (JObj kvs # rest) seq results vals
          = extract_loop dt clock render rest seq results vals"
    by simp
next
  show "extract_candidate (JNum x) = []" by simp
next
  assume "\<not> (dict_get part ''type'' = JStr ''text'' \<and> map_of part ''text'' \<noteq> None)
        \<and> (\<forall>s. map_of part ''value'' \<noteq> Some (JStr s))"
  then show "extract_candidate (JObj part) = []"
    by (auto split: option.splits json.splits)
next
  assume h: "map_of kvs ''content'' = Some v \<and> JObj part \<in> set (ensure_list v)
        \<and> dict_get part ''type'' = JStr ''text'' \<and> map_of part ''text'' = Some t
        \<and> (\<forall>s. t \<noteq> JStr s)"
  then show f: "flatten_text (JObj kvs) = Inl TypeError"
    using flatten_text_not_string[of kvs v part t] by blast
  then show "extract_loop dt clock render (JObj kvs # rest) seq results vals = Inl TypeError"
    by simp
qed

lemma strip_brief_coder_payload: "strip brief_coder_payload = brief_coder_payload"
  by (simp add: brief_coder_payload_def strip_def lstrip_def rstrip_def char_values)

lemma flatten_message_record: "flatten_text message_record = Inr brief_coder_payload"
  by (simp add: message_record_def flatten_text_def content_candidates_def nested_content_def
      ensure_list_def strip_brief_coder_payload)

theorem flatten_text_top_level_content_only_witness:
  "map_of [(''content'', JNum 42), (''message'', JObj [(''content'', JStr brief_coder_payload)])]
       ''content'' = Some (JNum 42)
   \<and> list_all (\<lambda>c. extract_candidate c = []) (ensure_list (JNum 42))
   \<and> flatten_text shadowed_record = Inr []
   \<and> flatten_text shadowed_record = flatten_text (JObj [(''content'', JNum 42)])
   \<and> extract_events small_datetime fixed_clock python_repr [shadowed_record] = Inr ([], [])
   \<and> flatten_text message_record = Inr brief_coder_payload
   \<and> flatten_text untyped_part_record = Inr []
   \<and> flatten_text null_text_record = Inl TypeError
   \<and> extract_events small_datetime fixed_clock python_repr [null_text_record, message_record]
       = Inl TypeError"
proof -
  let ?kvs = "[(''content'', JNum 42), (''message'', JObj [(''content'', JStr brief_coder_payload)])]"
  have c: "map_of ?kvs ''content'' = Some (JNum 42)" by simp
  have n: "list_all (\<lambda>c. extract_candidate c = []) (ensure_list (JNum 42))"
    by (simp add: ensure_list_def)
  note inst = flatten_text_top_level_content_only[of ?kvs "JNum 42" small_datetime fixed_clock
      python_repr "[]" 0 "[]" "[]"]
  have a: "flatten_text (JObj ?kvs) = flatten_text (JObj [(''content'', JNum 42)])"
    by (rule inst[THEN conjunct1, rule_format, OF c])
  have both: "flatten_text (JObj ?kvs) = Inr []
      \<and> extract_loop small_datetime fixed_clock python_repr (JObj ?kvs # []) 0 [] []
          = extract_loop small_datetime fixed_clock python_repr [] 0 [] []"
    by (rule inst[THEN conjunct2, THEN conjunct1, rule_format, OF conjI[OF c n]])
  let ?part = "[(''type'', JStr ''image''), (''text'', JStr ''unused'')]"
  let ?kvs2 = "[(''content'', JList [JObj ?part]), (''payload'', JObj [(''content'', JStr brief_coder_payload)])]"
  have c2: "map_of ?kvs2 ''content'' = Some (JList [JObj ?part])" by simp
  have n2: "list_all (\<lambda>c. extract_candidate c = []) (ensure_list (JList [JObj ?part]))"
    by (simp add: ensure_list_def dict_get_def)
  have u: "flatten_text untyped_part_record = Inr []"
    unfolding untyped_part_record_def
    by (rule flatten_text_top_level_content_only[of ?kvs2 "JList [JObj ?part]", THEN conjunct2,
          THEN conjunct1, rule_format, OF conjI[OF c2 n2], THEN conjunct1])
  let ?null = "[(''type'', JStr ''text''), (''text'', JNull)]"
  let ?kvs3 = "[(''content'', JObj ?null), (''message'', JObj [(''content'', JStr brief_coder_payload)])]"
  have h3: "map_of ?kvs3 ''content'' = Some (JObj ?null) \<and> JObj ?null \<in> set (ensure_list (JObj ?null))
        \<and> dict_get ?null ''type'' = JStr ''text'' \<and> map_of ?null ''text'' = Some JNull
        \<and> (\<forall>s. JNull \<noteq> JStr s)"
    by (simp add: ensure_list_def dict_get_def)
  have raised: "flatten_text (JObj ?kvs3) = Inl TypeError
      \<and> extract_loop small_datetime fixed_clock python_repr (JObj ?kvs3 # [message_record]) 0 [] []
          = Inl TypeError"
    by (rule flatten_text_top_level_content_only[of ?kvs3 "JObj ?null" small_datetime fixed_clock
          python_repr "[message_record]" 0 "[]" "[]" _ ?null JNull,
          THEN conjunct2, THEN conjunct2, THEN conjunct2, THEN conjunct2, rule_format, OF h3])
  have e: "extract_events small_datetime fixed_clock python_repr [shadowed_record] = Inr ([], [])"
    unfolding shadowed_record_def extract_events_def using both by simp
  have a': "flatten_text shadowed_record = flatten_text (JObj [(''content'', JNum 42)])"
    unfolding shadowed_record_def by (rule a)
  have b': "flatten_text shadowed_record = Inr []"
    unfolding shadowed_record_def using both by (rule conjunct1)
  have r1: "flatten_text null_text_record = Inl TypeError"
    unfolding null_text_record_def using raised by (rule conjunct1)
  have r2: "extract_events small_datetime fixed_clock python_repr [null_text_record, message_record]
       = Inl TypeError"
    unfolding null_text_record_def extract_events_def using raised by (rule conjunct2)
  show ?thesis
    by (intro conjI c n b' a' e flatten_message_record u r1 r2)
qed

section \<open>The role of an event record\<close>

lemma classify_event_kinds:
  assumes "classify_event t = Some c"
  shows "fst c \<in> {''coder_payload'', ''tester_payload'', ''stuck_payload'',
                   ''coder_response'', ''tester_response'', ''stuck_response''}"
  using assms
  by (auto simp: classify_event_def CLASSIFIERS_def classifier_orchestrator_payload_def
      classifier_agent_response_def split: if_splits)

lemma role_rule_make_event:
  assumes "classify_event t = Some c"
  shows "role_rule (make_event stamp seq t c guess)"
  using classify_event_kinds[OF assms]
  by (auto simp: role_rule_def make_event_def Let_def endswith_payload_kinds)

lemma extract_loop_roles:
  "extract_loop dt clock render raws seq results vals = Inr (evs, vs) \<Longrightarrow>
     list_all role_rule results \<Longrightarrow> list_all role_rule evs"
proof (induction raws arbitrary: seq results vals)
  case Nil
  then show ?case by simp
next
  case (Cons raw raws)
  show ?case
  proof (cases "flatten_text raw")
    case (Inl err)
    with Cons.prems show ?thesis by simp
  next
    case (Inr t)
    show ?thesis
    proof (cases "t = []")
      case True
      with Cons Inr show ?thesis by simp
    next
      case False
      show ?thesis
      proof (cases "classify_event t")
        case None
        with Cons Inr False show ?thesis by simp
      next
        case (Some c)
        show ?thesis
        proof (cases "guess_actor render raw")
          case (Inl err)
          with Cons.prems Inr False Some show ?thesis by simp
        next
          case guess: (Inr g)
          show ?thesis
          proof (cases "parse_timestamp dt (clock (seq + 1)) raw")
            case (Inl err)
            with Cons.prems Inr False Some guess show ?thesis by simp
          next
            case stamp: (Inr st)
            have "list_all role_rule (results @ [make_event st (seq + 1) t c g])"
              using Cons.prems(2) role_rule_make_event[OF Some] by simp
            moreover have "extract_loop dt clock render raws (seq + 1)
                (results @ [make_event st (seq + 1) t c g])
                (vals @ make_validation t (fst c)) = Inr (evs, vs)"
              using Cons.prems(1) Inr False Some guess stamp by simp
            ultimately show ?thesis by (rule Cons.IH[rotated])
          qed
        qed
      qed
    qed
  qed
qed

text \<open>
  Claim C7. In every record that \<^const>\<open>extract_events\<close> returns, the role is
  \<open>delegation\<close> when the payload type ends in \<open>payload\<close> and \<open>completion\<close> otherwise:
  the trace builder has no other tag. Its records of the eight texts of the simulated run
  are set beside the eight records that \<^const>\<open>build_simulation\<close> makes of the same texts.
  The kinds agree in every place; the roles differ at the tester response, which
  \<^const>\<open>build_simulation\<close> tags \<open>verification\<close>, at the stuck payload, which it tags
  \<open>escalation\<close>, and at the stuck response, which it tags \<open>resolution\<close>.
\<close>

theorem extract_events_roles:
  assumes "extract_events dt clock render raws = Inr (evs, vals)"
  shows "list_all
           (\<lambda>e. role e = (if endswith (payload_type e) ''payload'' then ''delegation''
                           else ''completion''))
           evs
         \<and> (\<exists>log_evs log_vals.
               extract_events dt clock render (simulation_log midnight_needed_by)
                 = Inr (log_evs, log_vals)
               \<and> map (\<lambda>e. (payload_type e, role e)) log_evs =
                   [(''coder_payload'', ''delegation''), (''coder_response'', ''completion''),
                    (''tester_payload'', ''delegation''), (''tester_response'', ''completion''),
                    (''coder_payload'', ''delegation''), (''coder_response'', ''completion''),
                    (''stuck_payload'', ''delegation''), (''stuck_response'', ''completion'')])
         \<and> map (\<lambda>e. (payload_type e, role e))
               (events (build_simulation ts midnight_needed_by now)) =
             [(''coder_payload'', ''delegation''), (''coder_response'', ''completion''),
              (''tester_payload'', ''delegation''), (''tester_response'', ''verification''),
              (''coder_payload'', ''delegation''), (''coder_response'', ''completion''),
              (''stuck_payload'', ''escalation''), (''stuck_response'', ''resolution'')]"
proof -
  have "list_all role_rule evs"
    using extract_loop_roles[OF assms[unfolded extract_events_def]] by simp
  then have rule: "list_all
           (\<lambda>e. role e = (if endswith (payload_type e) ''payload'' then ''delegation''
                           else ''completion''))
           evs"
    unfolding list_all_iff role_rule_def by (auto simp: endswith_payload_kinds)
  have log: "\<exists>log_evs log_vals.
               extract_events dt clock render (simulation_log midnight_needed_by)
                 = Inr (log_evs, log_vals)
               \<and> map (\<lambda>e. (payload_type e, role e)) log_evs =
                   [(''coder_payload'', ''delegation''), (''coder_response'', ''completion''),
                    (''tester_payload'', ''delegation''), (''tester_response'', ''completion''),
                    (''coder_payload'', ''delegation''), (''coder_response'', ''completion''),
                    (''stuck_payload'', ''delegation''), (''stuck_response'', ''completion'')]"
    unfolding simulation_log_run by simp
  show ?thesis
    using rule log simulation_roles by (intro conjI)
qed

theorem extract_events_roles_witness:
  "\<exists>evs vals.
     extract_events small_datetime fixed_clock python_repr (simulation_log midnight_needed_by)
       = Inr (evs, vals)
     \<and> map payload_type evs =
         [''coder_payload'', ''coder_response'', ''tester_payload'', ''tester_response'',
          ''coder_payload'', ''coder_response'', ''stuck_payload'', ''stuck_response'']
     \<and> list_all
         (\<lambda>e. role e = (if endswith (payload_type e) ''payload'' then ''delegation''
                         else ''completion''))
         evs
     \<and> map (\<lambda>e. (payload_type e, role e)) (events midnight_run) =
         [(''coder_payload'', ''delegation''), (''coder_response'', ''completion''),
          (''tester_payload'', ''delegation''), (''tester_response'', ''verification''),
          (''coder_payload'', ''delegation''), (''coder_response'', ''completion''),
          (''stuck_payload'', ''escalation''), (''stuck_response'', ''resolution'')]"
proof -
  obtain evs vals where run:
    "extract_events small_datetime fixed_clock python_repr (simulation_log midnight_needed_by)
       = Inr (evs, vals)"
    and kinds: "map payload_type evs =
         [''coder_payload'', ''coder_response'', ''tester_payload'', ''tester_response'',
          ''coder_payload'', ''coder_response'', ''stuck_payload'', ''stuck_response'']"
    unfolding simulation_log_run by simp
  note inst = extract_events_roles[OF run, of midnight_ts midnight_generated_at,
      folded midnight_run_def]
  show ?thesis
    by (intro exI[of _ evs] exI[of _ vals] conjI run kinds inst[THEN conjunct1]
        inst[THEN conjunct2, THEN conjunct2])
qed

section \<open>The item identifier of an event key\<close>

lemma rstrip_prefix: "prefix (rstrip s) s"
proof -
  have "suffix (dropWhile is_space (rev s)) (rev s)" by (rule suffix_dropWhile)
  then obtain zs where "rev s = zs @ dropWhile is_space (rev s)" by (auto simp: suffix_def)
  then have "rev (rev s) = rev (zs @ dropWhile is_space (rev s))" by simp
  then have "s = rstrip s @ rev zs" by (simp add: rstrip_def)
  then show ?thesis by (metis prefixI)
qed

lemma lower_char_colon_self: "lower_char CHR '':'' = CHR '':''"
  by (simp add: char_values)

lemma todo_id_marker:
  assumes "map lower_char h = ''todo id:''"
  shows "\<exists>h7. h = h7 @ [CHR '':''] \<and> CHR '':'' \<notin> set h7"
proof -
  from assms have "h \<noteq> []" by auto
  then obtain h7 c where h: "h = h7 @ [c]" by (cases h rule: rev_cases) auto
  have lit: "''todo id:'' = ''todo id'' @ [CHR '':'']" by simp
  from assms have "map lower_char h7 @ [lower_char c] = ''todo id'' @ [CHR '':'']"
    unfolding h lit by simp
  then have m: "map lower_char h7 = ''todo id''" and c: "lower_char c = CHR '':''"
    by (simp_all only: append1_eq_conv)
  from c have "c = CHR '':''" by (rule lower_char_colon)
  moreover have "CHR '':'' \<notin> set h7"
  proof
    assume "CHR '':'' \<in> set h7"
    then have "lower_char CHR '':'' \<in> set (map lower_char h7)" by (simp add: image_iff) blast
    then show False unfolding m lower_char_colon_self by simp
  qed
  ultimately show ?thesis using h by simp
qed

lemma colon_not_space: "\<not> is_space CHR '':''"
  by (simp add: char_values)

lemma after_colon_todo_id_line:
  assumes "is_todo_id_line line"
  shows "after_colon line = Inr (drop 8 (lstrip line))"
proof -
  let ?s = "lstrip line"
  from assms obtain z where z: "map lower_char (rstrip ?s) = ''todo id:'' @ z"
    by (auto simp: is_todo_id_line_def startswith_prefix prefix_def strip_def lower_def)
  then have "\<exists>h r. rstrip ?s = h @ r \<and> ''todo id:'' = map lower_char h \<and> z = map lower_char r"
    by (simp only: map_eq_append_conv)
  then obtain h r where hr: "rstrip ?s = h @ r" "map lower_char h = ''todo id:''"
    by metis
  from rstrip_prefix[of ?s] obtain t where t: "?s = rstrip ?s @ t" by (auto simp: prefix_def)
  from todo_id_marker[OF hr(2)] obtain h7 where h7: "h = h7 @ [CHR '':'']" "CHR '':'' \<notin> set h7"
    by blast
  have "length (map lower_char h) = length ''todo id:''" by (simp only: hr(2))
  then have len: "length h = 8" by simp
  have s: "?s = h7 @ CHR '':'' # (r @ t)" using t hr(1) h7(1) by simp
  have drop8: "drop 8 ?s = r @ t" using t hr(1) len by simp
  have line: "line = takeWhile is_space line @ ?s" by (simp add: lstrip_def)
  have ws: "\<forall>c \<in> set (takeWhile is_space line). c \<noteq> CHR '':''"
    using colon_not_space by (auto dest: set_takeWhileD)
  have "dropWhile (\<lambda>c. c \<noteq> CHR '':'') line
      = dropWhile (\<lambda>c. c \<noteq> CHR '':'') (takeWhile is_space line @ h7 @ CHR '':'' # (r @ t))"
    using line s by simp
  also have "\<dots> = dropWhile (\<lambda>c. c \<noteq> CHR '':'') (h7 @ CHR '':'' # (r @ t))"
    using ws by (simp add: dropWhile_append2)
  also have "\<dots> = CHR '':'' # (r @ t)"
    using h7(2) by (subst dropWhile_append2) auto
  finally have dw: "dropWhile (\<lambda>c. c \<noteq> CHR '':'') line = CHR '':'' # (r @ t)" .
  have "CHR '':'' \<in> set line" using assms by (auto simp: is_todo_id_line_def dest: todo_line_has_colon)
  then show ?thesis by (simp add: after_colon_def dw drop8)
qed

lemma find_todo_id_none:
  "list_all (\<lambda>l. \<not> is_todo_id_line l) lines \<Longrightarrow> find_todo_id lines = Inr ''unknown''"
  by (induction lines) (simp_all add: is_todo_id_line_def)

lemma find_todo_id_first:
  "list_all (\<lambda>l. \<not> is_todo_id_line l) pre \<Longrightarrow> is_todo_id_line l \<Longrightarrow>
     find_todo_id (pre @ l # post) = Inr (strip (drop 8 (lstrip l)))"
proof (induction pre)
  case Nil
  then show ?case
    using after_colon_todo_id_line[of l] by (simp add: is_todo_id_line_def)
next
  case (Cons p pre)
  then show ?case by (simp add: is_todo_id_line_def)
qed

text \<open>
  Claim C8, in the form that holds. \<^const>\<open>extract_event_key\<close> takes the first line of the content that,
  stripped and lower-cased, starts with \<open>todo id:\<close>; its \<open>todo_id\<close> is what follows that
  marker on the line, stripped, whatever its form. It is \<open>unknown\<close> when no line starts
  with the marker.
\<close>

theorem extract_event_key_todo_id:
  "(list_all (\<lambda>l. \<not> is_todo_id_line l) (splitlines (content e)) \<longrightarrow>
      extract_event_key e =
        Inr \<lparr>key_payload_type = payload_type e, todo_id = ''unknown'',
             key_sender = sender e, key_recipient = recipient e\<rparr>)
   \<and> (splitlines (content e) = pre @ l # post \<and> list_all (\<lambda>l. \<not> is_todo_id_line l) pre
        \<and> is_todo_id_line l \<longrightarrow>
      extract_event_key e =
        Inr \<lparr>key_payload_type = payload_type e, todo_id = strip (drop 8 (lstrip l)),
             key_sender = sender e, key_recipient = recipient e\<rparr>)"
  by (simp add: extract_event_key_def find_todo_id_none find_todo_id_first)

theorem extract_event_key_todo_id_witness:
  "list_all (\<lambda>l. \<not> is_todo_id_line l) (splitlines (content stuck_dispatch))
   \<and> extract_event_key stuck_dispatch =
       Inr \<lparr>key_payload_type = ''stuck_payload'', todo_id = ''unknown'',
            key_sender = ''orchestrator'', key_recipient = ''stuck''\<rparr>
   \<and> TODO_ID_PATTERN_search (content stuck_dispatch) = Some ''todo-002''
   \<and> splitlines (content unpatterned) =
       [] @ ''TODO ID: task-7'' # [''STATUS: success'', ''DIFF:'', ''TESTS:'']
   \<and> is_todo_id_line ''TODO ID: task-7''
   \<and> extract_event_key unpatterned =
       Inr \<lparr>key_payload_type = ''coder_response'', todo_id = ''task-7'',
            key_sender = ''coder'', key_recipient = ''orchestrator''\<rparr>"
proof -
  have none: "list_all (\<lambda>l. \<not> is_todo_id_line l) (splitlines (content stuck_dispatch))"
    by (simp only: example_lines example_todo_id_lines)
  have "extract_event_key stuck_dispatch =
       Inr \<lparr>key_payload_type = payload_type stuck_dispatch, todo_id = ''unknown'',
            key_sender = sender stuck_dispatch, key_recipient = recipient stuck_dispatch\<rparr>"
    by (rule extract_event_key_todo_id[of stuck_dispatch, THEN conjunct1, rule_format, OF none])
  then have k1: "extract_event_key stuck_dispatch =
       Inr \<lparr>key_payload_type = ''stuck_payload'', todo_id = ''unknown'',
            key_sender = ''orchestrator'', key_recipient = ''stuck''\<rparr>"
    by (simp add: stuck_dispatch_def)
  have "extract_event_key unpatterned =
       Inr \<lparr>key_payload_type = payload_type unpatterned,
            todo_id = strip (drop 8 (lstrip ''TODO ID: task-7'')),
            key_sender = sender unpatterned, key_recipient = recipient unpatterned\<rparr>"
    by (rule extract_event_key_todo_id[of unpatterned "[]" "''TODO ID: task-7''"
          "[''STATUS: success'', ''DIFF:'', ''TESTS:'']", THEN conjunct2, rule_format])
      (simp add: example_lines example_todo_id_lines)
  then have k2: "extract_event_key unpatterned =
       Inr \<lparr>key_payload_type = ''coder_response'', todo_id = ''task-7'',
            key_sender = ''coder'', key_recipient = ''orchestrator''\<rparr>"
    by (simp add: example_todo_id_lines) (simp add: unpatterned_def)
  show ?thesis
    using none k1 k2 example_pattern_results(1) example_lines(2) example_todo_id_lines(2)
    by simp
qed

text \<open>
  The claim as stated fails on an event whose line names an item that is not \<open>todo-\<close> and
  digits: the pattern of the reconstructor finds no item, and the key holds the name.
\<close>

theorem extract_event_key_todo_id_counterexample:
  "TODO_ID_PATTERN_search (content unpatterned) = None
   \<and> extract_event_key unpatterned =
       Inr \<lparr>key_payload_type = ''coder_response'', todo_id = ''task-7'',
            key_sender = ''coder'', key_recipient = ''orchestrator''\<rparr>
   \<and> extract_event_key unpatterned \<noteq>
       Inr \<lparr>key_payload_type = ''coder_response'', todo_id = ''unknown'',
            key_sender = ''coder'', key_recipient = ''orchestrator''\<rparr>"
proof -
  have "find_todo_id (splitlines (content unpatterned)) = Inr ''task-7''"
    using example_todo_id_lines(2)
    by (simp add: example_lines is_todo_id_line_def after_colon_def)
      (simp add: strip_def lstrip_def rstrip_def char_values)
  then have "extract_event_key unpatterned =
       Inr \<lparr>key_payload_type = ''coder_response'', todo_id = ''task-7'',
            key_sender = ''coder'', key_recipient = ''orchestrator''\<rparr>"
    by (simp add: extract_event_key_def) (simp add: unpatterned_def)
  then show ?thesis using example_pattern_results(2) by simp
qed

section \<open>The active item after the item is complete\<close>

text \<open>
  Claim C9, on the events of the simulated run. \<^const>\<open>build_simulation\<close> sets
  \<^verbatim>\<open>active_todo\<close> back to \<^verbatim>\<open>None\<close> when the tester has passed the first item: its
  fifth snapshot has the phase dispatch, the item complete and no active item.
  \<^const>\<open>build_state_snapshots\<close>, given the events of the same run, assigns
  \<^verbatim>\<open>active_todo\<close> at a coder payload and nowhere else: in its fifth snapshot, with the same
  phase and the item complete, the item is still the active one, and in no later snapshot is
  the field \<^verbatim>\<open>None\<close> again.
\<close>

theorem active_todo_stays_after_completion:
  "map (\<lambda>s. (phase s, active_todo s, todo_statuses s ''todo-001''))
       (build_state_snapshots (events (build_simulation ts needed_by now))) =
     [(''bootstrap'', None, None),
      (''dispatch'', Some ''todo-001'', Some ''in_progress''),
      (''verifying'', Some ''todo-001'', Some ''verifying''),
      (''verifying'', Some ''todo-001'', Some ''verifying''),
      (''dispatch'', Some ''todo-001'', Some ''complete''),
      (''dispatch'', Some ''todo-002'', Some ''complete''),
      (''escalating'', Some ''todo-002'', Some ''complete''),
      (''escalating'', Some ''todo-002'', Some ''complete'')]
   \<and> map (\<lambda>s. (phase s, active_todo s, todo_statuses s ''todo-001''))
       (state_snapshots (build_simulation ts needed_by now)) =
     [(''bootstrap'', None, Some ''pending''),
      (''planning'', None, Some ''pending''),
      (''dispatch'', Some ''todo-001'', Some ''in_progress''),
      (''verifying'', Some ''todo-001'', Some ''verifying''),
      (''dispatch'', None, Some ''complete''),
      (''dispatch'', Some ''todo-002'', Some ''complete''),
      (''escalating'', Some ''todo-002'', Some ''complete''),
      (''planning'', None, Some ''complete'')]"
  using simulation_rebuilt simulation_snapshots by (rule conjI)

section \<open>The classifier is a first-match dispatch\<close>

lemma classify_event_spec: "classify_event t = spec_first_match spec_predicates t"
  by (simp add: classify_event_def CLASSIFIERS_def classifier_orchestrator_payload_def
      classifier_agent_response_def spec_predicates_def)

lemma spec_first_match_Some_iff:
  "spec_first_match ps t = Some r \<longleftrightarrow>
     (\<exists>i<length ps. fst (ps ! i) t \<and> snd (ps ! i) = r \<and> (\<forall>k<i. \<not> fst (ps ! k) t))"
proof (induction ps t rule: spec_first_match.induct)
  case (1 t)
  then show ?case by simp
next
  case (2 p r' rest t)
  show ?case
  proof (cases "p t")
    case True
    then show ?thesis
      apply simp
      apply (rule iffI)
       apply (rule exI[of _ 0]; simp)
      apply (elim exE conjE)
      subgoal for i by (cases i; auto)
      done
  next
    case False
    have "(\<exists>i<length ((p, r') # rest). fst (((p, r') # rest) ! i) t \<and> snd (((p, r') # rest) ! i) = r \<and> (\<forall>k<i. \<not> fst (((p, r') # rest) ! k) t))
      \<longleftrightarrow> (\<exists>i<length rest. fst (rest ! i) t \<and> snd (rest ! i) = r \<and> (\<forall>k<i. \<not> fst (rest ! k) t))"
      (is "?L \<longleftrightarrow> ?R")
    proof
      assume ?L
      then obtain i where i: "i < length ((p, r') # rest)" "fst (((p, r') # rest) ! i) t"
        "snd (((p, r') # rest) ! i) = r" "\<forall>k<i. \<not> fst (((p, r') # rest) ! k) t" by blast
      with False obtain j where j: "i = Suc j" by (cases i) auto
      have "\<forall>k<j. \<not> fst (rest ! k) t"
      proof (intro allI impI)
        fix k assume "k < j"
        then have "Suc k < i" using j by simp
        with i(4) have "\<not> fst (((p, r') # rest) ! Suc k) t" by blast
        then show "\<not> fst (rest ! k) t" by simp
      qed
      with i j show ?R by auto
    next
      assume ?R
      then obtain j where j: "j < length rest" "fst (rest ! j) t" "snd (rest ! j) = r"
        "\<forall>k<j. \<not> fst (rest ! k) t" by blast
      have "\<forall>k<Suc j. \<not> fst (((p, r') # rest) ! k) t"
      proof (intro allI impI)
        fix k assume "k < Suc j"
        then show "\<not> fst (((p, r') # rest) ! k) t" using False j(4) by (cases k) auto
      qed
      with j show ?L by (intro exI[of _ "Suc j"]) simp
    qed
    with False 2 show ?thesis by simp
  qed
qed

lemma spec_first_match_None_iff:
  "spec_first_match ps t = None \<longleftrightarrow> (\<forall>i<length ps. \<not> fst (ps ! i) t)"
proof (induction ps t rule: spec_first_match.induct)
  case (1 t)
  then show ?case by simp
next
  case (2 p r rest t)
  then show ?case by (auto simp: nth_Cons split: nat.splits)
qed

text \<open>
  Claim C6. \<^const>\<open>classify_event\<close> is first-match dispatch over the six predicates in
  the order coder\_payload, tester\_payload, stuck\_payload, coder\_response,
  tester\_response, stuck\_response: when a text satisfies two predicates and none before
  the earlier of the two, the result is the kind of the earlier one; a text that satisfies
  no predicate is not classified.
\<close>

theorem classify_event_first_match:
  "classify_event t = spec_first_match spec_predicates t
   \<and> map (fst \<circ> snd) spec_predicates =
       [''coder_payload'', ''tester_payload'', ''stuck_payload'',
        ''coder_response'', ''tester_response'', ''stuck_response'']
   \<and> (\<forall>i j. i < j \<and> j < length spec_predicates
          \<and> fst (spec_predicates ! i) t \<and> fst (spec_predicates ! j) t
          \<and> (\<forall>k<i. \<not> fst (spec_predicates ! k) t)
        \<longrightarrow> classify_event t = Some (snd (spec_predicates ! i)))
   \<and> ((\<forall>k<length spec_predicates. \<not> fst (spec_predicates ! k) t) \<longrightarrow> classify_event t = None)"
proof (intro conjI allI impI)
  show "classify_event t = spec_first_match spec_predicates t" by (rule classify_event_spec)
next
  show "map (fst \<circ> snd) spec_predicates =
       [''coder_payload'', ''tester_payload'', ''stuck_payload'',
        ''coder_response'', ''tester_response'', ''stuck_response'']"
    by (simp add: spec_predicates_def)
next
  fix i j
  assume h: "i < j \<and> j < length spec_predicates
          \<and> fst (spec_predicates ! i) t \<and> fst (spec_predicates ! j) t
          \<and> (\<forall>k<i. \<not> fst (spec_predicates ! k) t)"
  then have "\<exists>n<length spec_predicates. fst (spec_predicates ! n) t
      \<and> snd (spec_predicates ! n) = snd (spec_predicates ! i) \<and> (\<forall>k<n. \<not> fst (spec_predicates ! k) t)"
    by (intro exI[of _ i]) simp
  then show "classify_event t = Some (snd (spec_predicates ! i))"
    by (simp only: classify_event_spec spec_first_match_Some_iff)
next
  assume "\<forall>k<length spec_predicates. \<not> fst (spec_predicates ! k) t"
  then show "classify_event t = None"
    by (simp only: classify_event_spec spec_first_match_None_iff)
qed

theorem classify_event_first_match_witness:
  "fst (spec_predicates ! 0) both_markers \<and> fst (spec_predicates ! 3) both_markers
   \<and> classify_event both_markers = Some (''coder_payload'', (''orchestrator'', ''coder''))
   \<and> classify_event ''hello'' = None"
proof -
  have p0: "fst (spec_predicates ! 0) both_markers"
    by (simp add: spec_predicates_def both_markers_def)
  have p3: "fst (spec_predicates ! 3) both_markers"
    by (simp add: spec_predicates_def both_markers_def)
  have len: "(3::nat) < length spec_predicates" by (simp add: spec_predicates_def)
  have r0: "snd (spec_predicates ! 0) = (''coder_payload'', (''orchestrator'', ''coder''))"
    by (simp add: spec_predicates_def)
  have none: "\<forall>k<length spec_predicates. \<not> fst (spec_predicates ! k) ''hello''"
    by (simp add: spec_predicates_def nth_Cons' All_less_Suc numeral_eq_Suc)
  have "classify_event both_markers = Some (snd (spec_predicates ! 0))"
    by (rule classify_event_first_match[of both_markers, THEN conjunct2, THEN conjunct2,
          THEN conjunct1, rule_format, of 0 3]) (simp add: p0 p3 len)
  moreover have "classify_event ''hello'' = None"
    by (rule classify_event_first_match[of "''hello''", THEN conjunct2, THEN conjunct2,
          THEN conjunct2, rule_format]) (simp add: none)
  ultimately show ?thesis using p0 p3 r0 by simp
qed


end
